theory Spec2Isabelle
  imports Complex_Main "HOL-Library.Char_ord" "HOL-Library.List_Lexorder"
    "HOL-Library.Log_Nat" "HOL-Library.Multiset"
begin

section \<open>JotForm compliance dashboard: calculator and leaderboard\<close>

text \<open>
  A shallow embedding of \<^verbatim>\<open>compute_period_targets\<close> and
  \<^verbatim>\<open>leaderboard_with_badges\<close> of \<^verbatim>\<open>src/main.py\<close>, with the parts of Python and
  pandas they call. A data frame built from a list of dictionaries is the list of its rows;
  Python strings are byte strings in UTF-8, whose lexicographic order is the order of the
  code points.
\<close>

subsection \<open>Settings\<close>

record req =
  quota :: nat
  req_interval :: string

text \<open>\<^verbatim>\<open>FORM_COMPLIANCE\<close>, lines 6 to 15: a form maps to a rule or to \<^verbatim>\<open>None\<close>.\<close>

definition FORM_COMPLIANCE :: "(string \<times> req option) list" where
  "FORM_COMPLIANCE =
    [(''AWEstruck Arival/Departure'', None),
     (''Daily Huddle'', Some \<lparr>quota = 3, req_interval = ''daily''\<rparr>),
     (''Valet Driver Assessment'', None),
     (''Key Scrub'', Some \<lparr>quota = 3, req_interval = ''daily''\<rparr>),
     (''Lot Audit'', Some \<lparr>quota = 3, req_interval = ''daily''\<rparr>),
     (''Overnight Valet'', Some \<lparr>quota = 1, req_interval = ''daily''\<rparr>),
     (''Parking/Work Area Hazard'', Some \<lparr>quota = 1, req_interval = ''weekly''\<rparr>),
     (''Site Audit'', Some \<lparr>quota = 1, req_interval = ''monthly''\<rparr>)]"

text \<open>\<^verbatim>\<open>FORM_COMPLIANCE.get(f)\<close>: \<^verbatim>\<open>None\<close> for a missing key and for a key bound to
  \<^verbatim>\<open>None\<close> alike.\<close>

definition FORM_COMPLIANCE_get :: "string \<Rightarrow> req option" where
  "FORM_COMPLIANCE_get f = (case map_of FORM_COMPLIANCE f of None \<Rightarrow> None | Some v \<Rightarrow> v)"

subsection \<open>Dates and pandas ranges\<close>

text \<open>A \<^verbatim>\<open>datetime.date\<close>, as the date widget returns it.\<close>

record date =
  year :: nat
  month :: nat
  day :: nat

definition is_leap :: "nat \<Rightarrow> bool" where
  "is_leap y = (y mod 4 = 0 \<and> (y mod 100 \<noteq> 0 \<or> y mod 400 = 0))"

definition days_before_year :: "nat \<Rightarrow> nat" where
  "days_before_year y =
     (y - 1) * 365 + (y - 1) div 4 - (y - 1) div 100 + (y - 1) div 400"

definition DAYS_BEFORE_MONTH :: "nat list" where
  "DAYS_BEFORE_MONTH = [0, 0, 31, 59, 90, 120, 151, 181, 212, 243, 273, 304, 334]"

definition days_before_month :: "nat \<Rightarrow> nat \<Rightarrow> nat" where
  "days_before_month y m =
     DAYS_BEFORE_MONTH ! m + (if 2 < m \<and> is_leap y then 1 else 0)"

text \<open>\<^verbatim>\<open>date.toordinal()\<close>: day 1 is 0001-01-01, a Monday. The month of a date lies in
  1 to 12, so the table lookup is in range.\<close>

definition toordinal :: "date \<Rightarrow> nat" where
  "toordinal d = days_before_year (year d) + days_before_month (year d) (month d) + day d"

text \<open>\<^verbatim>\<open>weekday()\<close>: Monday is 0.\<close>

definition weekday_ord :: "nat \<Rightarrow> nat" where
  "weekday_ord n = (n + 6) mod 7"

definition weekday :: "date \<Rightarrow> nat" where
  "weekday d = weekday_ord (toordinal d)"

text \<open>\<^verbatim>\<open>pd.date_range(start, end, freq='D')\<close>: every day from start to end, both included;
  empty when end is before start. The days are kept as ordinals.\<close>

definition date_range_D :: "date \<Rightarrow> date \<Rightarrow> nat list" where
  "date_range_D start_date end_date = [toordinal start_date ..< Suc (toordinal end_date)]"

text \<open>\<^verbatim>\<open>pd.date_range(start, end, freq='W-MON')\<close>: the Mondays from start to end, both
  included.\<close>

definition date_range_W_MON :: "date \<Rightarrow> date \<Rightarrow> nat list" where
  "date_range_W_MON start_date end_date =
     filter (\<lambda>n. weekday_ord n = 0) [toordinal start_date ..< Suc (toordinal end_date)]"

text \<open>\<^verbatim>\<open>pd.period_range(start, end, freq='M')\<close>: the calendar months from that of start to
  that of end, each as the number of months since year 0.\<close>

definition month_index :: "date \<Rightarrow> nat" where
  "month_index d = year d * 12 + (month d - 1)"

definition period_range_M :: "date \<Rightarrow> date \<Rightarrow> nat list" where
  "period_range_M start_date end_date = [month_index start_date ..< Suc (month_index end_date)]"

text \<open>Lines 92 to 102: the periods of an interval, and their number.\<close>

definition period_count :: "string \<Rightarrow> date \<Rightarrow> date \<Rightarrow> nat" where
  "period_count interval start_date end_date =
     (if interval = ''daily'' then length (date_range_D start_date end_date)
      else if interval = ''weekly'' then
        (let periods = date_range_W_MON start_date end_date
         in length (if weekday start_date \<noteq> 0 then toordinal start_date # periods
                    else periods))
      else if interval = ''monthly'' then length (period_range_M start_date end_date)
      else 0)"

subsection \<open>Python floats\<close>

text \<open>
  A Python float is a binary64 number, kept here as the rational it denotes. The exponent
  range is not modelled: the quotients below are of list lengths by small targets and lie
  far inside it.
\<close>

definition round_half_even :: "rat \<Rightarrow> int" where
  "round_half_even x =
     (let f = \<lfloor>x\<rfloor>; d = x - of_int f
      in if d < 1 / 2 then f else if 1 / 2 < d then f + 1
         else if even f then f else f + 1)"

text \<open>For \<open>0 < x\<close>, the \<open>e\<close> with \<open>2 powi e \<le> x < 2 powi (e + 1)\<close>.\<close>

definition binary_exponent :: "rat \<Rightarrow> int" where
  "binary_exponent x =
     (if 1 \<le> x then int (floorlog 2 (nat \<lfloor>x\<rfloor>)) - 1
      else - int (floorlog 2 (nat (\<lceil>1 / x\<rceil> - 1))))"

text \<open>The binary64 number nearest to a positive rational, ties to the even significand of
  53 bits.\<close>

definition nearest_double_pos :: "rat \<Rightarrow> rat" where
  "nearest_double_pos x =
     (let u = 2 powi (binary_exponent x - 52)
      in of_int (round_half_even (x / u)) * u)"

definition nearest_double :: "rat \<Rightarrow> rat" where
  "nearest_double x =
     (if x = 0 then 0 else if 0 < x then nearest_double_pos x
      else - nearest_double_pos (- x))"

text \<open>\<^verbatim>\<open>a / b\<close> on two ints with \<^verbatim>\<open>b\<close> not zero: the correctly rounded quotient.\<close>

definition py_truediv :: "nat \<Rightarrow> nat \<Rightarrow> rat" where
  "py_truediv a b = nearest_double (of_nat a / of_nat b)"

text \<open>\<^verbatim>\<open>round(x, 1)\<close> on a float: the exact value of \<^verbatim>\<open>x\<close> rounded to one decimal, ties to
  even, and the float nearest to that decimal.\<close>

definition py_round1 :: "rat \<Rightarrow> rat" where
  "py_round1 x = nearest_double (of_int (round_half_even (10 * x)) / 10)"

subsection \<open>Python strings\<close>

fun digit_char :: "nat \<Rightarrow> char" where
  "digit_char n = char_of (48 + n)"

text \<open>\<^verbatim>\<open>str(n)\<close> of a non-negative int, as the f-string of line 108 formats it.\<close>

fun str_nat :: "nat \<Rightarrow> string" where
  "str_nat n = (if n < 10 then [digit_char n] else str_nat (n div 10) @ [digit_char (n mod 10)])"

declare str_nat.simps [simp del]

definition upper_char :: "char \<Rightarrow> char" where
  "upper_char c = (if CHR ''a'' \<le> c \<and> c \<le> CHR ''z'' then char_of (of_char c - (32::nat)) else c)"

definition lower_char :: "char \<Rightarrow> char" where
  "lower_char c = (if CHR ''A'' \<le> c \<and> c \<le> CHR ''Z'' then char_of (of_char c + (32::nat)) else c)"

text \<open>\<^verbatim>\<open>str.capitalize()\<close> on the ASCII strings of the settings.\<close>

fun capitalize :: "string \<Rightarrow> string" where
  "capitalize [] = []"
| "capitalize (c # cs) = upper_char c # map lower_char cs"

declare capitalize.simps [simp del] digit_char.simps [simp del]

subsection \<open>The raw data frame\<close>

text \<open>A row of \<^verbatim>\<open>extract_row\<close>, lines 58 to 68; the location is \<^verbatim>\<open>None\<close> when the
  submission has no location answer.\<close>

record submission =
  sub_form_id :: string
  sub_form_name :: string
  submission_id :: string
  submitted_at :: string
  sub_location :: "string option"

text \<open>\<^verbatim>\<open>FORM_ID_TO_NAME\<close>, lines 16 to 25.\<close>

definition FORM_ID_TO_NAME :: "(string \<times> string) list" where
  "FORM_ID_TO_NAME =
    [(''250265807744158'', ''AWEstruck Arival/Departure''),
     (''242047162465151'', ''Daily Huddle''),
     (''230053977061151'', ''Valet Driver Assessment''),
     (''242746988998184'', ''Key Scrub''),
     (''223424048202040'', ''Lot Audit''),
     (''230404704539149'', ''Overnight Valet''),
     (''233176683727163'', ''Parking/Work Area Hazard''),
     (''222195371011142'', ''Site Audit'')]"

text \<open>A submission as the API returns it: its answers by question id, each with the name
  of its question and, when the question was answered, the answer (a string here).\<close>

record answer =
  ans_name :: string
  ans_answer :: "string option"

record api_submission =
  api_id :: string
  api_created_at :: string
  api_answers :: "(string \<times> answer) list"

text \<open>The loop of lines 65 to 67 on \<^verbatim>\<open>row['location']\<close>: the last answer of the location
  field wins, and \<^verbatim>\<open>v.get('answer', '')\<close> is the empty string without an answer.\<close>

fun location_answer :: "string \<Rightarrow> (string \<times> answer) list \<Rightarrow> string option \<Rightarrow> string option" where
  "location_answer location_field [] loc = loc"
| "location_answer location_field ((k, v) # kvs) loc =
     location_answer location_field kvs
       (if ans_name v = location_field
        then Some (case ans_answer v of None \<Rightarrow> '''' | Some a \<Rightarrow> a)
        else loc)"

definition extract_row :: "api_submission \<Rightarrow> string \<Rightarrow> string \<Rightarrow> submission" where
  "extract_row sub form_id location_field =
     \<lparr>sub_form_id = form_id,
      sub_form_name = (case map_of FORM_ID_TO_NAME form_id of None \<Rightarrow> form_id | Some n \<Rightarrow> n),
      submission_id = api_id sub,
      submitted_at = api_created_at sub,
      sub_location = location_answer location_field (api_answers sub) None\<rparr>"

text \<open>\<^verbatim>\<open>pd.DataFrame(all_rows)\<close> of no rows has no columns, and selecting a column of it
  raises \<^verbatim>\<open>KeyError\<close>.\<close>

datatype error = KeyError string

fun dropna :: "'a option list \<Rightarrow> 'a list" where
  "dropna [] = []"
| "dropna (None # xs) = dropna xs"
| "dropna (Some x # xs) = x # dropna xs"

text \<open>\<^verbatim>\<open>Series.unique()\<close>: the values in the order of their first appearance.\<close>

definition unique :: "'a list \<Rightarrow> 'a list" where
  "unique xs = rev (remdups (rev xs))"

subsection \<open>The compliance calculator\<close>

record compliance_row =
  form_name :: string
  location :: string
  interval :: string
  periods_in_range :: nat
  quota_per_period :: nat
  target_total :: nat
  actual_total :: nat
  percent_complete :: rat
  status :: string

text \<open>Line 85.\<close>

definition all_locations :: "submission list \<Rightarrow> string list \<Rightarrow> error + string list" where
  "all_locations df_raw selected_locations =
     (if selected_locations \<noteq> [] then Inr selected_locations
      else if df_raw = [] then Inl (KeyError ''location'')
      else Inr (sort (unique (dropna (map sub_location df_raw)))))"

text \<open>The list of line 85 when it does not raise.\<close>

definition effective_locations :: "submission list \<Rightarrow> string list \<Rightarrow> string list" where
  "effective_locations df_raw selected_locations =
     (if selected_locations \<noteq> [] then selected_locations
      else sort (unique (dropna (map sub_location df_raw))))"

text \<open>Line 104: the submissions of one form at one location. Both columns are selected
  from the raw frame, which raises when it has none.\<close>

definition df_form_loc :: "submission list \<Rightarrow> string \<Rightarrow> string \<Rightarrow> error + submission list" where
  "df_form_loc df_raw name loc =
     (if df_raw = [] then Inl (KeyError ''form_name'')
      else Inr (filter (\<lambda>s. sub_form_name s = name \<and> sub_location s = Some loc) df_raw))"

text \<open>Lines 105 to 119: the row of one form and one location, from the number of its
  submissions. When the target is 0 the percentage is the int 0, which \<^verbatim>\<open>round\<close>
  returns as it is; so does \<open>py_round1\<close>.\<close>

definition summary_row :: "string \<Rightarrow> req \<Rightarrow> nat \<Rightarrow> string \<Rightarrow> nat \<Rightarrow> compliance_row" where
  "summary_row name rq n loc actual =
     (let target = n * quota rq;
          percent = (if target \<noteq> 0 then py_truediv (100 * actual) target else 0);
          stat = (if target \<le> actual then ''Met''
                  else ''Missing '' @ str_nat (target - actual))
      in \<lparr>form_name = name, location = loc,
          interval = capitalize (req_interval rq),
          periods_in_range = n, quota_per_period = quota rq,
          target_total = target, actual_total = actual,
          percent_complete = py_round1 percent,
          status = stat\<rparr>)"

text \<open>The loop of line 103.\<close>

fun location_loop ::
  "submission list \<Rightarrow> string \<Rightarrow> req \<Rightarrow> nat \<Rightarrow> string list \<Rightarrow> error + compliance_row list" where
  "location_loop df_raw name rq n [] = Inr []"
| "location_loop df_raw name rq n (loc # locs) =
     (case df_form_loc df_raw name loc of
        Inl e \<Rightarrow> Inl e
      | Inr sel \<Rightarrow>
          (case location_loop df_raw name rq n locs of
             Inl e \<Rightarrow> Inl e
           | Inr rs \<Rightarrow> Inr (summary_row name rq n loc (length sel) # rs)))"

text \<open>The loop of line 86.\<close>

fun form_loop ::
  "submission list \<Rightarrow> date \<Rightarrow> date \<Rightarrow> string list \<Rightarrow> string list
     \<Rightarrow> error + compliance_row list" where
  "form_loop df_raw start_date end_date locs [] = Inr []"
| "form_loop df_raw start_date end_date locs (name # names) =
     (case FORM_COMPLIANCE_get name of
        None \<Rightarrow> form_loop df_raw start_date end_date locs names
      | Some rq \<Rightarrow>
          (case location_loop df_raw name rq
                  (period_count (req_interval rq) start_date end_date) locs of
             Inl e \<Rightarrow> Inl e
           | Inr rs \<Rightarrow>
               (case form_loop df_raw start_date end_date locs names of
                  Inl e \<Rightarrow> Inl e
                | Inr rs' \<Rightarrow> Inr (rs @ rs'))))"

text \<open>What the loop of line 103 appends for one form when the raw frame has rows: the
  closed form of the two loops that the proofs below work with.\<close>

definition rows_of_form ::
  "submission list \<Rightarrow> date \<Rightarrow> date \<Rightarrow> string list \<Rightarrow> string \<Rightarrow> compliance_row list" where
  "rows_of_form df_raw start_date end_date locs name =
     (case FORM_COMPLIANCE_get name of
        None \<Rightarrow> []
      | Some rq \<Rightarrow>
          map (\<lambda>loc. summary_row name rq (period_count (req_interval rq) start_date end_date) loc
                 (length (filter (\<lambda>s. sub_form_name s = name \<and> sub_location s = Some loc)
                    df_raw)))
              locs)"

definition compliance_forms :: "string list \<Rightarrow> string list" where
  "compliance_forms selected_forms = filter (\<lambda>f. FORM_COMPLIANCE_get f \<noteq> None) selected_forms"

definition compute_period_targets ::
  "submission list \<Rightarrow> date \<Rightarrow> date \<Rightarrow> string list \<Rightarrow> string list
     \<Rightarrow> error + compliance_row list" where
  "compute_period_targets df_raw start_date end_date selected_forms selected_locations =
     (case all_locations df_raw selected_locations of
        Inl e \<Rightarrow> Inl e
      | Inr locs \<Rightarrow>
          form_loop df_raw start_date end_date locs (compliance_forms selected_forms))"

subsection \<open>The leaderboard ranker\<close>

text \<open>The four labels that \<^verbatim>\<open>badge_row\<close> returns, lines 135 to 143: strings in the
  source, each an emoji followed by the words of the constructor.\<close>

datatype badge = Gold_Star | Silver_Star | Bronze_Star | Needs_Improvement

record agg_row =
  lb_location :: string
  forms_tracked :: nat
  total_target :: nat
  total_actual :: nat
  overall_percent :: rat

record leader_row = agg_row +
  Badge :: badge
  Rank :: nat

record leaderboard =
  columns :: "string list"
  lb_rows :: "leader_row list"

text \<open>Binary64 addition and subtraction: the exact result, rounded to the nearest
  float.\<close>

definition float_add :: "rat \<Rightarrow> rat \<Rightarrow> rat" where
  "float_add a b = nearest_double (a + b)"

definition float_sub :: "rat \<Rightarrow> rat \<Rightarrow> rat" where
  "float_sub a b = nearest_double (a - b)"

text \<open>The \<^verbatim>\<open>'mean'\<close> of line 131 is pandas' \<^verbatim>\<open>group_mean\<close>. It adds the values of a
  group in row order in binary64 with Kahan's compensation, starting from a sum and a
  compensation of 0: \<^verbatim>\<open>y = val - compensation; t = sumx + y;
  compensation = t - sumx - y; sumx = t\<close>.\<close>

fun kahan_sum :: "rat \<Rightarrow> rat \<Rightarrow> rat list \<Rightarrow> rat" where
  "kahan_sum sumx compensation [] = sumx"
| "kahan_sum sumx compensation (val # vals) =
     (let y = float_sub val compensation;
          t = float_add sumx y
      in kahan_sum t (float_sub (float_sub t sumx) y) vals)"

text \<open>The mean of a group, which is never empty: the sum divided by the number of values,
  rounded to the nearest float.\<close>

definition mean :: "rat list \<Rightarrow> rat" where
  "mean xs = nearest_double (kahan_sum 0 0 xs / of_nat (length xs))"

text \<open>Lines 126 to 133: \<^verbatim>\<open>groupby('location')\<close> sorts the group keys; each group is
  aggregated to one row.\<close>

definition agg :: "compliance_row list \<Rightarrow> string \<Rightarrow> agg_row" where
  "agg compliance_summary loc =
     (let g = filter (\<lambda>r. location r = loc) compliance_summary
      in \<lparr>lb_location = loc, forms_tracked = length g,
          total_target = sum_list (map target_total g),
          total_actual = sum_list (map actual_total g),
          overall_percent = mean (map percent_complete g)\<rparr>)"

definition groupby_location :: "compliance_row list \<Rightarrow> agg_row list" where
  "groupby_location compliance_summary =
     map (agg compliance_summary) (sort (unique (map location compliance_summary)))"

text \<open>Line 134: \<^verbatim>\<open>sort_values\<close>, descending. Rows of equal percentage keep their order
  here; nothing below depends on it.\<close>

definition sort_values_desc :: "agg_row list \<Rightarrow> agg_row list" where
  "sort_values_desc leader = sort_key (\<lambda>r. - overall_percent r) leader"

fun badge_row :: "agg_row \<Rightarrow> badge" where
  "badge_row row =
     (if 100 \<le> overall_percent row then Gold_Star
      else if 90 \<le> overall_percent row then Silver_Star
      else if 75 \<le> overall_percent row then Bronze_Star
      else Needs_Improvement)"

text \<open>Line 145: \<^verbatim>\<open>rank(method='min', ascending=False)\<close> of a value among the values of
  the column.\<close>

definition rank_min_desc :: "rat list \<Rightarrow> rat \<Rightarrow> nat" where
  "rank_min_desc vs v = Suc (length (filter (\<lambda>w. v < w) vs))"

text \<open>The dense rank of the specification, in its words: the number of distinct strictly
  higher values, plus one. It is not what line 145 computes.\<close>

definition dense_rank_spec :: "rat list \<Rightarrow> rat \<Rightarrow> nat" where
  "dense_rank_spec vs v = Suc (length (remdups (filter (\<lambda>w. v < w) vs)))"

definition leaderboard_with_badges :: "compliance_row list \<Rightarrow> leaderboard" where
  "leaderboard_with_badges compliance_summary =
     (if compliance_summary = [] then
        \<lparr>columns = [''location'', ''overall_percent'', ''Badge'', ''Rank''], lb_rows = []\<rparr>
      else
        let leader = sort_values_desc (groupby_location compliance_summary);
            vs = map overall_percent leader
        in \<lparr>columns = [''location'', ''forms_tracked'', ''total_target'', ''total_actual'',
                        ''overall_percent'', ''Badge'', ''Rank''],
            lb_rows = map (\<lambda>r. agg_row.extend r
                        \<lparr>Badge = badge_row r, Rank = rank_min_desc vs (overall_percent r)\<rparr>)
                     leader\<rparr>)"

subsection \<open>Sample inputs\<close>

text \<open>Dates and submissions that the examples below run the functions on.\<close>

definition jan1 :: date where "jan1 = \<lparr>year = 2024, month = 1, day = 1\<rparr>"
definition jan3 :: date where "jan3 = \<lparr>year = 2024, month = 1, day = 3\<rparr>"
definition jan8 :: date where "jan8 = \<lparr>year = 2024, month = 1, day = 8\<rparr>"
definition jan15 :: date where "jan15 = \<lparr>year = 2024, month = 1, day = 15\<rparr>"

definition hazard_A :: submission where
  "hazard_A = \<lparr>sub_form_id = ''233176683727163'', sub_form_name = ''Parking/Work Area Hazard'',
     submission_id = ''5801'', submitted_at = ''2024-01-04 08:00:00'', sub_location = Some ''A''\<rparr>"

definition hazard_A' :: submission where
  "hazard_A' = \<lparr>sub_form_id = ''233176683727163'', sub_form_name = ''Parking/Work Area Hazard'',
     submission_id = ''5802'', submitted_at = ''2024-01-09 17:30:00'', sub_location = Some ''A''\<rparr>"

definition hazard_blank :: submission where
  "hazard_blank = \<lparr>sub_form_id = ''233176683727163'', sub_form_name = ''Parking/Work Area Hazard'',
     submission_id = ''5803'', submitted_at = ''2024-01-05 09:00:00'', sub_location = Some ''''\<rparr>"

definition valet_row :: "string \<Rightarrow> nat \<Rightarrow> rat \<Rightarrow> string \<Rightarrow> compliance_row" where
  "valet_row loc actual percent stat =
     \<lparr>form_name = ''Overnight Valet'', location = loc, interval = ''Daily'',
      periods_in_range = 5, quota_per_period = 1, target_total = 5, actual_total = actual,
      percent_complete = percent, status = stat\<rparr>"

definition three_locations :: "compliance_row list" where
  "three_locations =
     [valet_row ''C'' 4 80 ''Missing 1'', valet_row ''A'' 5 100 ''Met'',
      valet_row ''B'' 5 100 ''Met'']"

definition valet_A :: submission where
  "valet_A = \<lparr>sub_form_id = ''230404704539149'', sub_form_name = ''Overnight Valet'',
     submission_id = ''7301'', submitted_at = ''2024-01-01 23:10:00'', sub_location = Some ''A''\<rparr>"

definition two_forms :: "compliance_row list" where
  "two_forms =
     [\<lparr>form_name = ''Overnight Valet'', location = ''A'', interval = ''Daily'',
       periods_in_range = 1, quota_per_period = 1, target_total = 1, actual_total = 1,
       percent_complete = 100, status = ''Met''\<rparr>,
      \<lparr>form_name = ''Daily Huddle'', location = ''A'', interval = ''Daily'',
       periods_in_range = 1, quota_per_period = 3, target_total = 3, actual_total = 0,
       percent_complete = 0, status = ''Missing 3''\<rparr>]"

definition huddle_A :: submission where
  "huddle_A = \<lparr>sub_form_id = ''242047162465151'', sub_form_name = ''Daily Huddle'',
     submission_id = ''6101'', submitted_at = ''2024-01-01 07:45:00'', sub_location = Some ''A''\<rparr>"

definition scrub_A :: submission where
  "scrub_A = \<lparr>sub_form_id = ''242746988998184'', sub_form_name = ''Key Scrub'',
     submission_id = ''6201'', submitted_at = ''2024-01-01 12:00:00'', sub_location = Some ''A''\<rparr>"

definition float_pair :: "compliance_row list" where
  "float_pair =
     [\<lparr>form_name = ''Daily Huddle'', location = ''A'', interval = ''Daily'',
       periods_in_range = 1, quota_per_period = 3, target_total = 3, actual_total = 1,
       percent_complete = 2343279181116211 / 70368744177664, status = ''Missing 2''\<rparr>,
      \<lparr>form_name = ''Key Scrub'', location = ''A'', interval = ''Daily'',
       periods_in_range = 1, quota_per_period = 3, target_total = 3, actual_total = 5,
       percent_complete = 2932617413604147 / 17592186044416, status = ''Met''\<rparr>]"

section \<open>Properties of the Python float operations\<close>

lemma round_half_even_cases:
  "round_half_even x = \<lfloor>x\<rfloor> \<or> round_half_even x = \<lfloor>x\<rfloor> + 1"
  by (simp add: round_half_even_def Let_def)

lemma round_half_even_of_int [simp]: "round_half_even (of_int n) = n"
  by (simp add: round_half_even_def Let_def)

lemma round_half_even_mono:
  assumes "x \<le> y"
  shows "round_half_even x \<le> round_half_even y"
proof (cases "\<lfloor>x\<rfloor> = \<lfloor>y\<rfloor>")
  case True
  have "x - of_int \<lfloor>x\<rfloor> \<le> y - of_int \<lfloor>y\<rfloor>"
    using assms True by simp
  then show ?thesis
    using True by (auto simp: round_half_even_def Let_def)
next
  case False
  have "\<lfloor>x\<rfloor> \<le> \<lfloor>y\<rfloor>"
    using assms by (rule floor_mono)
  with False have "\<lfloor>x\<rfloor> + 1 \<le> \<lfloor>y\<rfloor>"
    by simp
  moreover have "round_half_even x \<le> \<lfloor>x\<rfloor> + 1"
    using round_half_even_cases [of x] by auto
  moreover have "\<lfloor>y\<rfloor> \<le> round_half_even y"
    using round_half_even_cases [of y] by auto
  ultimately show ?thesis
    by linarith
qed

lemma round_half_even_ge: "of_int n \<le> x \<Longrightarrow> n \<le> round_half_even x"
  using round_half_even_mono [of "of_int n" x] by simp

lemma round_half_even_le: "x \<le> of_int n \<Longrightarrow> round_half_even x \<le> n"
  using round_half_even_mono [of x "of_int n"] by simp

lemma round_half_even_error: "\<bar>of_int (round_half_even x) - x\<bar> \<le> 1 / 2"
proof -
  have "of_int \<lfloor>x\<rfloor> \<le> x" "x < of_int \<lfloor>x\<rfloor> + 1"
    by linarith+
  then show ?thesis
    by (auto simp: round_half_even_def Let_def abs_le_iff)
qed

lemma binary_exponent_bounds:
  assumes "0 < x"
  shows "2 powi binary_exponent x \<le> x" and "x < 2 powi (binary_exponent x + 1)"
proof -
  have "2 powi binary_exponent x \<le> x \<and> x < 2 powi (binary_exponent x + 1)"
  proof (cases "1 \<le> x")
    case True
    define n where "n = nat \<lfloor>x\<rfloor>"
    define k where "k = floorlog 2 n"
    have n: "0 < n" "of_nat n \<le> x" "x < of_nat n + 1"
      using True by (auto simp: n_def) linarith+
    have b: "2 ^ (k - 1) \<le> n" "n < 2 ^ k"
      using floorlog_bounds [of n 2] n(1) by (auto simp: k_def)
    have k: "0 < k"
      using b(2) n(1) by (cases k) auto
    have e: "binary_exponent x = int (k - 1)"
      using True k by (simp add: binary_exponent_def k_def n_def)
    have "(2::rat) ^ (k - 1) \<le> of_nat n"
      using b(1) by (metis of_nat_le_iff of_nat_numeral of_nat_power)
    then have lo: "(2::rat) ^ (k - 1) \<le> x"
      using n(2) by linarith
    have "n + 1 \<le> 2 ^ k"
      using b(2) by simp
    then have "(of_nat (n + 1) :: rat) \<le> of_nat (2 ^ k)"
      by (simp only: of_nat_le_iff)
    then have hi: "x < 2 ^ k"
      using n(3) by simp
    have "binary_exponent x + 1 = int k"
      using k e by simp
    then have "(2::rat) powi (binary_exponent x + 1) = 2 ^ k"
      by (simp only: power_int_of_nat)
    moreover have "(2::rat) powi binary_exponent x = 2 ^ (k - 1)"
      by (simp only: e power_int_of_nat)
    ultimately show ?thesis
      using lo hi by simp
  next
    case False
    define m where "m = nat (\<lceil>1 / x\<rceil> - 1)"
    define k where "k = floorlog 2 m"
    have inv: "1 < 1 / x"
      using False assms by simp
    then have "of_int 1 < 1 / x"
      by simp
    then have "1 < \<lceil>1 / x\<rceil>"
      by (simp only: less_ceiling_iff)
    then have c: "2 \<le> \<lceil>1 / x\<rceil>"
      by simp
    have m: "0 < m" "int m = \<lceil>1 / x\<rceil> - 1"
      using c unfolding m_def by linarith+
    have b: "2 ^ (k - 1) \<le> m" "m < 2 ^ k"
      using floorlog_bounds [of m 2] m(1) by (auto simp: k_def)
    have k: "0 < k"
      using b(2) m(1) by (cases k) auto
    have e: "binary_exponent x = - int k"
      using False by (simp add: binary_exponent_def k_def m_def)
    have "int m + 1 \<le> 2 ^ k"
      using b(2) by (metis of_nat_less_iff of_nat_numeral of_nat_power zless_imp_add1_zle)
    then have "\<lceil>1 / x\<rceil> \<le> 2 ^ k"
      using m(2) by simp
    then have "1 / x \<le> 2 ^ k"
      by (simp add: ceiling_le_iff)
    then have lo: "1 / 2 ^ k \<le> x"
      using assms by (simp add: field_simps)
    have "(2::int) ^ (k - 1) \<le> int m"
      using b(1) by (metis of_nat_le_iff of_nat_numeral of_nat_power)
    then have "(2::int) ^ (k - 1) < \<lceil>1 / x\<rceil>"
      using m(2) by simp
    then have "(2::rat) ^ (k - 1) < 1 / x"
      by (simp add: less_ceiling_iff)
    then have hi: "x < 1 / 2 ^ (k - 1)"
      using assms by (simp add: field_simps)
    have "binary_exponent x + 1 = - int (k - 1)"
      using k e by simp
    then have "(2::rat) powi (binary_exponent x + 1) = 1 / 2 ^ (k - 1)"
      by (simp only: power_int_minus_divide power_int_of_nat)
    moreover have "(2::rat) powi binary_exponent x = 1 / 2 ^ k"
      by (simp only: e power_int_minus_divide power_int_of_nat)
    ultimately show ?thesis
      using lo hi by simp
  qed
  then show "2 powi binary_exponent x \<le> x" and "x < 2 powi (binary_exponent x + 1)"
    by simp_all
qed


lemma nearest_double_pos_bounds:
  assumes "0 < x"
  shows "2 powi binary_exponent x \<le> nearest_double_pos x"
    and "nearest_double_pos x \<le> 2 powi (binary_exponent x + 1)"
proof -
  define e where "e = binary_exponent x"
  define u :: rat where "u = 2 powi (e - 52)"
  have u: "0 < u"
    by (simp add: u_def)
  have lo: "2 powi e = of_int (2 ^ 52) * u" and hi: "2 powi (e + 1) = of_int (2 ^ 53) * u"
    by (simp_all add: u_def power_int_diff power_int_add)
  have "of_int (2 ^ 52) * u \<le> x" "x \<le> of_int (2 ^ 53) * u"
    using binary_exponent_bounds [OF assms] lo hi by (simp_all add: e_def)
  then have "of_int (2 ^ 52) \<le> x / u" "x / u \<le> of_int (2 ^ 53)"
    using u by (simp_all add: field_simps)
  then have "2 ^ 52 \<le> round_half_even (x / u)" "round_half_even (x / u) \<le> 2 ^ 53"
    by (simp_all add: round_half_even_ge round_half_even_le)
  then have "(of_int (2 ^ 52) :: rat) \<le> of_int (round_half_even (x / u))"
    "(of_int (round_half_even (x / u)) :: rat) \<le> of_int (2 ^ 53)"
    by (simp_all only: of_int_le_iff)
  then have "of_int (2 ^ 52) * u \<le> of_int (round_half_even (x / u)) * u"
    "of_int (round_half_even (x / u)) * u \<le> of_int (2 ^ 53) * u"
    using u by (simp_all only: mult_le_cancel_right_pos)
  then show "2 powi binary_exponent x \<le> nearest_double_pos x"
    and "nearest_double_pos x \<le> 2 powi (binary_exponent x + 1)"
    using lo hi by (simp_all add: nearest_double_pos_def Let_def e_def u_def)
qed

lemma binary_exponent_mono:
  assumes "0 < x" "x \<le> y"
  shows "binary_exponent x \<le> binary_exponent y"
proof (rule ccontr)
  assume "\<not> binary_exponent x \<le> binary_exponent y"
  then have "binary_exponent y + 1 \<le> binary_exponent x"
    by simp
  then have "(2::rat) powi (binary_exponent y + 1) \<le> 2 powi binary_exponent x"
    by (rule power_int_increasing) simp
  moreover have "y < 2 powi (binary_exponent y + 1)" "2 powi binary_exponent x \<le> x"
    using binary_exponent_bounds [of y] binary_exponent_bounds [of x] assms by simp_all
  ultimately show False
    using assms by linarith
qed

lemma nearest_double_pos_mono:
  assumes "0 < x" "x \<le> y"
  shows "nearest_double_pos x \<le> nearest_double_pos y"
proof (cases "binary_exponent x = binary_exponent y")
  case True
  define u :: rat where "u = 2 powi (binary_exponent y - 52)"
  have u: "0 < u"
    by (simp add: u_def)
  then have "x / u \<le> y / u"
    using assms by (simp add: divide_right_mono)
  then have "round_half_even (x / u) \<le> round_half_even (y / u)"
    by (rule round_half_even_mono)
  then have "(of_int (round_half_even (x / u)) :: rat) \<le> of_int (round_half_even (y / u))"
    by (simp only: of_int_le_iff)
  then have "of_int (round_half_even (x / u)) * u \<le> of_int (round_half_even (y / u)) * u"
    using u by (simp only: mult_le_cancel_right_pos)
  then show ?thesis
    by (simp add: nearest_double_pos_def Let_def True u_def)
next
  case False
  with binary_exponent_mono [OF assms] have "binary_exponent x + 1 \<le> binary_exponent y"
    by simp
  then have "(2::rat) powi (binary_exponent x + 1) \<le> 2 powi binary_exponent y"
    by (rule power_int_increasing) simp
  moreover have "nearest_double_pos x \<le> 2 powi (binary_exponent x + 1)"
    using assms by (simp add: nearest_double_pos_bounds)
  moreover have "2 powi binary_exponent y \<le> nearest_double_pos y"
    using assms by (simp add: nearest_double_pos_bounds)
  ultimately show ?thesis
    by linarith
qed

lemma nearest_double_nonneg: "0 \<le> x \<Longrightarrow> 0 \<le> nearest_double x"
proof -
  assume "0 \<le> x"
  show ?thesis
  proof (cases "x = 0")
    case True
    then show ?thesis by (simp add: nearest_double_def)
  next
    case False
    with \<open>0 \<le> x\<close> have x: "0 < x" by simp
    have "(0::rat) < 2 powi binary_exponent x"
      by simp
    also have "\<dots> \<le> nearest_double_pos x"
      using x by (rule nearest_double_pos_bounds)
    finally show ?thesis
      using x by (simp add: nearest_double_def)
  qed
qed

lemma nearest_double_mono:
  assumes "0 \<le> x" "x \<le> y"
  shows "nearest_double x \<le> nearest_double y"
proof (cases "x = 0")
  case True
  then show ?thesis
    using assms nearest_double_nonneg [of y] by (simp add: nearest_double_def)
next
  case False
  with assms have "0 < x" "0 < y"
    by simp_all
  then show ?thesis
    using assms nearest_double_pos_mono [of x y] by (simp add: nearest_double_def)
qed

lemma py_truediv_nonneg: "0 \<le> py_truediv a b"
  by (simp add: py_truediv_def nearest_double_nonneg)

lemma py_truediv_mono: "a \<le> a' \<Longrightarrow> py_truediv a b \<le> py_truediv a' b"
  unfolding py_truediv_def
  by (rule nearest_double_mono) (simp_all add: divide_right_mono)

lemma py_round1_mono:
  assumes "0 \<le> x" "x \<le> y"
  shows "py_round1 x \<le> py_round1 y"
  unfolding py_round1_def
proof (rule nearest_double_mono)
  have "of_int 0 \<le> 10 * x"
    using assms by simp
  then have "0 \<le> round_half_even (10 * x)"
    by (rule round_half_even_ge)
  then show "(0::rat) \<le> of_int (round_half_even (10 * x)) / 10"
    by simp
  have "round_half_even (10 * x) \<le> round_half_even (10 * y)"
    using assms by (intro round_half_even_mono) simp
  then show "(of_int (round_half_even (10 * x)) :: rat) / 10 \<le> of_int (round_half_even (10 * y)) / 10"
    by simp
qed

lemma round_half_even_0 [simp]: "round_half_even 0 = 0"
  using round_half_even_of_int [of 0] by simp

lemma py_round1_0 [simp]: "py_round1 0 = 0"
  by (simp add: py_round1_def nearest_double_def)

lemma py_round1_nearest_tenth:
  "\<bar>of_int (round_half_even (10 * x)) / 10 - x\<bar> \<le> 1 / 20"
  using round_half_even_error [of "10 * x"] by (simp add: abs_le_iff field_simps)

subsection \<open>Floats are fixed points of rounding; the mean of one and of two floats\<close>

lemma nearest_double_0 [simp]: "nearest_double 0 = 0"
  by (simp add: nearest_double_def)

lemma binary_exponent_unique:
  assumes "0 < y" "2 powi e \<le> y" "y < 2 powi (e + 1)"
  shows "binary_exponent y = e"
proof (rule antisym)
  show "binary_exponent y \<le> e"
  proof (rule ccontr)
    assume "\<not> binary_exponent y \<le> e"
    then have "e + 1 \<le> binary_exponent y"
      by simp
    then have "(2::rat) powi (e + 1) \<le> 2 powi binary_exponent y"
      by (rule power_int_increasing) simp
    moreover have "2 powi binary_exponent y \<le> y"
      using assms(1) by (rule binary_exponent_bounds)
    ultimately show False
      using assms(3) by linarith
  qed
  show "e \<le> binary_exponent y"
  proof (rule ccontr)
    assume "\<not> e \<le> binary_exponent y"
    then have "binary_exponent y + 1 \<le> e"
      by simp
    then have "(2::rat) powi (binary_exponent y + 1) \<le> 2 powi e"
      by (rule power_int_increasing) simp
    moreover have "y < 2 powi (binary_exponent y + 1)"
      using assms(1) by (rule binary_exponent_bounds)
    ultimately show False
      using assms(2) by linarith
  qed
qed

lemma nearest_double_pos_fixed:
  assumes "y = of_int k * 2 powi (binary_exponent y - 52)"
  shows "nearest_double_pos y = y"
proof -
  define u :: rat where "u = 2 powi (binary_exponent y - 52)"
  have u: "u \<noteq> 0"
    by (simp add: u_def)
  have "y = of_int k * u"
    unfolding u_def by (rule assms)
  then have "y / u = of_int k * u / u"
    by (rule arg_cong [where f = "\<lambda>z. z / u"])
  then have "y / u = of_int k"
    using u by simp
  then have "of_int (round_half_even (y / u)) * u = of_int k * u"
    by simp
  then show ?thesis
    using assms by (simp add: nearest_double_pos_def Let_def u_def)
qed

lemma nearest_double_pos_idem:
  assumes "0 < x"
  shows "nearest_double_pos (nearest_double_pos x) = nearest_double_pos x"
proof -
  define e where "e = binary_exponent x"
  define u :: rat where "u = 2 powi (e - 52)"
  define m where "m = round_half_even (x / u)"
  define y where "y = nearest_double_pos x"
  have y: "y = of_int m * u"
    by (simp add: y_def nearest_double_pos_def Let_def m_def u_def e_def)
  have lo: "2 powi e \<le> y" and hi: "y \<le> 2 powi (e + 1)"
    using nearest_double_pos_bounds [OF assms] by (simp_all add: y_def e_def)
  have pos: "0 < y"
  proof -
    have "(0::rat) < 2 powi e" by simp
    with lo show ?thesis by linarith
  qed
  show ?thesis
  proof (cases "y < 2 powi (e + 1)")
    case True
    with pos lo have "binary_exponent y = e"
      by (rule binary_exponent_unique)
    then have "y = of_int m * 2 powi (binary_exponent y - 52)"
      using y by (simp add: u_def)
    then have "nearest_double_pos y = y"
      by (rule nearest_double_pos_fixed)
    then show ?thesis
      by (simp add: y_def)
  next
    case False
    with hi have eq: "y = 2 powi (e + 1)"
      by simp
    have "y < 2 powi (e + 1 + 1)"
    proof -
      have "(2::rat) powi (e + 1) < 2 powi (e + 1 + 1)"
        by (rule power_int_strict_increasing) simp_all
      with eq show ?thesis by simp
    qed
    with pos eq have be: "binary_exponent y = e + 1"
      by (intro binary_exponent_unique) simp_all
    have "(2::rat) powi (52 + (e + 1 - 52)) = 2 powi 52 * 2 powi (e + 1 - 52)"
      by (rule power_int_add) simp
    moreover have "52 + (e + 1 - 52) = e + 1"
      by simp
    ultimately have "(2::rat) powi (e + 1) = 2 powi 52 * 2 powi (e + 1 - 52)"
      by (simp only:)
    then have "y = of_int (2 ^ 52) * 2 powi (binary_exponent y - 52)"
      using eq be by simp
    then have "nearest_double_pos y = y"
      by (rule nearest_double_pos_fixed)
    then show ?thesis
      by (simp add: y_def)
  qed
qed

lemma nearest_double_pos_positive: "0 < x \<Longrightarrow> 0 < nearest_double_pos x"
proof -
  assume x: "0 < x"
  have "(0::rat) < 2 powi binary_exponent x" by simp
  also have "\<dots> \<le> nearest_double_pos x"
    using x by (rule nearest_double_pos_bounds)
  finally show ?thesis .
qed

lemma nearest_double_idem [simp]: "nearest_double (nearest_double x) = nearest_double x"
proof -
  consider "x = 0" | "0 < x" | "x < 0"
    by linarith
  then show ?thesis
  proof cases
    case 1
    then show ?thesis by simp
  next
    case 2
    then show ?thesis
      using nearest_double_pos_positive [of x] nearest_double_pos_idem [of x]
      by (simp add: nearest_double_def)
  next
    case 3
    then have "0 < - x" by simp
    then show ?thesis
      using nearest_double_pos_positive [of "- x"] nearest_double_pos_idem [of "- x"] 3
      by (simp add: nearest_double_def)
  qed
qed

lemma py_round1_is_float [simp]: "nearest_double (py_round1 x) = py_round1 x"
  by (simp add: py_round1_def)

lemma mean_single:
  assumes "nearest_double a = a"
  shows "mean [a] = a"
  using assms by (simp add: mean_def float_add_def float_sub_def Let_def)

lemma mean_pair:
  assumes "nearest_double a = a" "nearest_double b = b"
  shows "mean [a, b] = nearest_double (nearest_double (a + b) / 2)"
  using assms by (simp add: mean_def float_add_def float_sub_def Let_def)

subsection \<open>Evaluating the model on concrete inputs\<close>

lemma floor_rat_divide_numeral [simp]:
  "\<lfloor>(numeral a :: rat) / numeral b\<rfloor> = numeral a div numeral b"
  by (metis floor_divide_of_int_eq of_int_numeral)

lemma ceiling_rat_divide_numeral [simp]:
  "\<lceil>(numeral a :: rat) / numeral b\<rceil> = - (- numeral a div numeral b)"
  by (metis ceiling_divide_eq_div of_int_numeral)

lemmas float_eval = py_truediv_def py_round1_def nearest_double_def nearest_double_pos_def
  binary_exponent_def compute_floorlog round_half_even_def Let_def

lemma capitalize_table [simp]:
  "capitalize ''daily'' = ''Daily''"
  "capitalize ''weekly'' = ''Weekly''"
  "capitalize ''monthly'' = ''Monthly''"
  by code_simp+

lemma str_nat_digit: "n < 10 \<Longrightarrow> str_nat n = [digit_char n]"
  by (simp add: str_nat.simps)

lemma digit_char_eval:
  "digit_char 0 = CHR ''0''" "digit_char 1 = CHR ''1''" "digit_char 2 = CHR ''2''"
  "digit_char 3 = CHR ''3''" "digit_char 4 = CHR ''4''" "digit_char 5 = CHR ''5''"
  "digit_char 6 = CHR ''6''" "digit_char 7 = CHR ''7''" "digit_char 8 = CHR ''8''"
  "digit_char 9 = CHR ''9''"
  by code_simp+

lemmas calculator_eval = compute_period_targets_def all_locations_def compliance_forms_def
  FORM_COMPLIANCE_get_def FORM_COMPLIANCE_def df_form_loc_def summary_row_def unique_def

lemmas date_eval = period_count_def date_range_D_def date_range_W_MON_def period_range_M_def
  month_index_def weekday_def weekday_ord_def toordinal_def days_before_year_def
  days_before_month_def DAYS_BEFORE_MONTH_def is_leap_def

section \<open>The calculator's loops in closed form\<close>

lemma location_loop_nonempty:
  "df_raw \<noteq> [] \<Longrightarrow>
   location_loop df_raw name rq n locs =
     Inr (map (\<lambda>loc. summary_row name rq n loc
            (length (filter (\<lambda>s. sub_form_name s = name \<and> sub_location s = Some loc) df_raw))) locs)"
  by (induction locs) (simp_all add: df_form_loc_def)

lemma location_loop_empty:
  "location_loop [] name rq n locs = (if locs = [] then Inr [] else Inl (KeyError ''form_name''))"
  by (cases locs) (simp_all add: df_form_loc_def)

lemma form_loop_nonempty:
  "df_raw \<noteq> [] \<Longrightarrow>
   form_loop df_raw start_date end_date locs names =
     Inr (concat (map (rows_of_form df_raw start_date end_date locs) names))"
  by (induction names) (simp_all add: rows_of_form_def location_loop_nonempty split: option.splits)

lemma form_loop_empty:
  "form_loop [] start_date end_date locs names =
     (if locs = [] \<or> compliance_forms names = [] then Inr []
      else Inl (KeyError ''form_name''))"
  by (induction names)
     (auto simp: location_loop_empty compliance_forms_def split: option.splits sum.splits if_splits)

lemma compliance_forms_idem [simp]:
  "compliance_forms (compliance_forms names) = compliance_forms names"
  by (simp add: compliance_forms_def)

lemma compute_period_targets_Inr:
  assumes "compute_period_targets df_raw start_date end_date selected_forms selected_locations = Inr rows"
  shows "rows = concat (map (rows_of_form df_raw start_date end_date
                   (effective_locations df_raw selected_locations)) (compliance_forms selected_forms))"
proof (cases "df_raw = []")
  case True
  with assms have "selected_locations \<noteq> []"
    by (auto simp: compute_period_targets_def all_locations_def split: if_splits)
  with assms True have "rows = []" "compliance_forms selected_forms = []"
    by (auto simp: compute_period_targets_def all_locations_def form_loop_empty split: if_splits)
  then show ?thesis by simp
next
  case False
  with assms show ?thesis
    by (auto simp: compute_period_targets_def all_locations_def form_loop_nonempty
        effective_locations_def split: if_splits)
qed

lemma compute_period_targets_nonempty:
  "df_raw \<noteq> [] \<Longrightarrow>
   compute_period_targets df_raw start_date end_date selected_forms selected_locations =
     Inr (concat (map (rows_of_form df_raw start_date end_date
                   (effective_locations df_raw selected_locations)) (compliance_forms selected_forms)))"
  by (simp add: compute_period_targets_def all_locations_def form_loop_nonempty
        effective_locations_def)

section \<open>Sample runs of the calculator\<close>

lemma digit_char_Suc:
  "digit_char (Suc 0) = CHR ''1''" "digit_char (Suc (Suc 0)) = CHR ''2''"
  "digit_char (Suc (Suc (Suc 0))) = CHR ''3''"
  by code_simp+

lemma py_percent_0 [simp]: "py_round1 (py_truediv 0 b) = 0"
  by (simp add: py_truediv_def nearest_double_def)

lemma py_percent_1_3:
  "py_round1 (py_truediv 100 (Suc (Suc (Suc 0)))) = 2343279181116211 / 70368744177664"
proof -
  have "py_round1 (py_truediv 100 3) = 2343279181116211 / 70368744177664"
    by (simp add: float_eval)
  then show ?thesis
    by (simp add: numeral_3_eq_3)
qed

lemma py_percent_2_3:
  "py_round1 (py_truediv 200 (Suc (Suc (Suc 0)))) = 4693595236650189 / 70368744177664"
proof -
  have "py_round1 (py_truediv 200 3) = 4693595236650189 / 70368744177664"
    by (simp add: float_eval)
  then show ?thesis
    by (simp add: numeral_3_eq_3)
qed

lemma weekly_run:
  "compute_period_targets [hazard_A] jan3 jan15 [''Parking/Work Area Hazard''] [] =
     Inr [\<lparr>form_name = ''Parking/Work Area Hazard'', location = ''A'', interval = ''Weekly'',
           periods_in_range = 3, quota_per_period = 1, target_total = 3, actual_total = 1,
           percent_complete = 2343279181116211 / 70368744177664, status = ''Missing 2''\<rparr>]"
  by (simp add: calculator_eval date_eval hazard_A_def jan3_def jan15_def py_percent_1_3
        str_nat_digit digit_char_Suc)

lemma monday_reversed_run:
  "compute_period_targets [hazard_A] jan15 jan8 [''Parking/Work Area Hazard''] [] =
     Inr [\<lparr>form_name = ''Parking/Work Area Hazard'', location = ''A'', interval = ''Weekly'',
           periods_in_range = 0, quota_per_period = 1, target_total = 0, actual_total = 1,
           percent_complete = 0, status = ''Met''\<rparr>]"
  by (simp add: calculator_eval date_eval hazard_A_def jan8_def jan15_def)

lemma unsorted_run:
  "compute_period_targets [hazard_A] jan3 jan15 [''Parking/Work Area Hazard''] [''B'', ''A''] =
     Inr [\<lparr>form_name = ''Parking/Work Area Hazard'', location = ''B'', interval = ''Weekly'',
           periods_in_range = 3, quota_per_period = 1, target_total = 3, actual_total = 0,
           percent_complete = 0, status = ''Missing 3''\<rparr>,
          \<lparr>form_name = ''Parking/Work Area Hazard'', location = ''A'', interval = ''Weekly'',
           periods_in_range = 3, quota_per_period = 1, target_total = 3, actual_total = 1,
           percent_complete = 2343279181116211 / 70368744177664, status = ''Missing 2''\<rparr>]"
  by (simp add: calculator_eval date_eval hazard_A_def jan3_def jan15_def py_percent_1_3
        str_nat_digit digit_char_Suc)

lemma unsorted_run_two:
  "compute_period_targets ([hazard_A] @ [hazard_A']) jan3 jan15 [''Parking/Work Area Hazard'']
     [''B'', ''A''] =
     Inr [\<lparr>form_name = ''Parking/Work Area Hazard'', location = ''B'', interval = ''Weekly'',
           periods_in_range = 3, quota_per_period = 1, target_total = 3, actual_total = 0,
           percent_complete = 0, status = ''Missing 3''\<rparr>,
          \<lparr>form_name = ''Parking/Work Area Hazard'', location = ''A'', interval = ''Weekly'',
           periods_in_range = 3, quota_per_period = 1, target_total = 3, actual_total = 2,
           percent_complete = 4693595236650189 / 70368744177664, status = ''Missing 1''\<rparr>]"
  by (simp add: calculator_eval date_eval hazard_A_def hazard_A'_def jan3_def jan15_def
        py_percent_2_3 str_nat_digit digit_char_Suc)

lemma py_percent_1_1: "py_round1 (py_truediv 100 (Suc 0)) = 100"
  by (simp add: float_eval)

lemma two_forms_from_calculator:
  "compute_period_targets [valet_A] jan1 jan1 [''Overnight Valet'', ''Daily Huddle''] [] =
     Inr two_forms"
  by (simp add: calculator_eval date_eval valet_A_def jan1_def two_forms_def py_percent_1_1
        str_nat_digit digit_char_Suc digit_char_eval)

lemma py_percent_thirds:
  "py_round1 (py_truediv 100 3) = 2343279181116211 / 70368744177664"
  "py_round1 (py_truediv 500 3) = 2932617413604147 / 17592186044416"
  by (simp_all add: float_eval)

lemma float_pair_from_calculator:
  "compute_period_targets [huddle_A, scrub_A, scrub_A, scrub_A, scrub_A, scrub_A] jan1 jan1
     [''Daily Huddle'', ''Key Scrub''] [] = Inr float_pair"
  by (simp add: calculator_eval date_eval huddle_A_def scrub_A_def jan1_def float_pair_def
        py_percent_thirds str_nat_digit digit_char_eval)

text \<open>A blank location is what \<^verbatim>\<open>extract_row\<close> gives a submission whose location
  question has no answer. Line 85 keeps it, since \<^verbatim>\<open>dropna\<close> only drops missing
  values, and it gets rows of its own; the location picker of line 173 leaves it out.\<close>

lemma hazard_blank_extracted:
  "extract_row
     \<lparr>api_id = ''5803'', api_created_at = ''2024-01-05 09:00:00'',
      api_answers = [(''3'', \<lparr>ans_name = ''location'', ans_answer = None\<rparr>)]\<rparr>
     ''233176683727163'' ''location'' = hazard_blank"
  by (simp add: extract_row_def FORM_ID_TO_NAME_def hazard_blank_def)

lemma blank_run:
  "compute_period_targets [hazard_blank] jan3 jan15 [''Parking/Work Area Hazard''] [] =
     Inr [\<lparr>form_name = ''Parking/Work Area Hazard'', location = '''', interval = ''Weekly'',
           periods_in_range = 3, quota_per_period = 1, target_total = 3, actual_total = 1,
           percent_complete = 2343279181116211 / 70368744177664, status = ''Missing 2''\<rparr>]"
  by (simp add: calculator_eval date_eval hazard_blank_def jan3_def jan15_def py_percent_1_3
        str_nat_digit digit_char_Suc)

section \<open>Claims about the calculator\<close>

lemma rows_of_form_mem:
  assumes "r \<in> set (rows_of_form df_raw start_date end_date locs name)"
  shows "\<exists>rq loc. FORM_COMPLIANCE_get name = Some rq \<and> loc \<in> set locs \<and>
           r = summary_row name rq (period_count (req_interval rq) start_date end_date) loc
                 (length (filter (\<lambda>s. sub_form_name s = name \<and> sub_location s = Some loc) df_raw))"
  using assms by (cases "FORM_COMPLIANCE_get name") (auto simp: rows_of_form_def)

lemma compute_period_targets_mem:
  assumes "compute_period_targets df_raw start_date end_date selected_forms selected_locations = Inr rows"
    and "r \<in> set rows"
  shows "\<exists>name rq loc. name \<in> set selected_forms \<and> FORM_COMPLIANCE_get name = Some rq \<and>
           loc \<in> set (effective_locations df_raw selected_locations) \<and>
           r = summary_row name rq (period_count (req_interval rq) start_date end_date) loc
                 (length (filter (\<lambda>s. sub_form_name s = name \<and> sub_location s = Some loc) df_raw))"
proof -
  from assms obtain name where "name \<in> set (compliance_forms selected_forms)"
    and "r \<in> set (rows_of_form df_raw start_date end_date
                (effective_locations df_raw selected_locations) name)"
    by (auto simp: compute_period_targets_Inr [OF assms(1)])
  then show ?thesis
    using rows_of_form_mem [of r] by (fastforce simp: compliance_forms_def)
qed

lemma rule_intervals:
  assumes "FORM_COMPLIANCE_get name = Some rq"
  shows "req_interval rq = ''daily'' \<or> req_interval rq = ''weekly'' \<or> req_interval rq = ''monthly''"
  using assms by (auto simp: FORM_COMPLIANCE_get_def FORM_COMPLIANCE_def split: if_splits)

lemma length_filter_upt:
  "length (filter P [a..<b]) = card {n. a \<le> n \<and> n < b \<and> P n}"
proof -
  have "length (filter P [a..<b]) = card (set (filter P [a..<b]))"
    by (metis distinct_card distinct_filter distinct_upt)
  also have "set (filter P [a..<b]) = {n. a \<le> n \<and> n < b \<and> P n}"
    by auto
  finally show ?thesis .
qed

lemma period_count_weekly:
  "period_count ''weekly'' start_date end_date =
     card {n. toordinal start_date \<le> n \<and> n \<le> toordinal end_date \<and> weekday_ord n = 0}
       + (if weekday start_date = 0 then 0 else 1)"
proof -
  have "{n. toordinal start_date \<le> n \<and> n < Suc (toordinal end_date) \<and> weekday_ord n = 0} =
        {n. toordinal start_date \<le> n \<and> n \<le> toordinal end_date \<and> weekday_ord n = 0}"
    by auto
  then have "length (date_range_W_MON start_date end_date) =
      card {n. toordinal start_date \<le> n \<and> n \<le> toordinal end_date \<and> weekday_ord n = 0}"
    unfolding date_range_W_MON_def by (simp only: length_filter_upt)
  then show ?thesis
    by (simp add: period_count_def Let_def)
qed

text \<open>
  C3. For every row of the weekly interval, \<open>periods_in_range\<close> is the number of Mondays
  from the start date to the end date, both included, plus one when the start date is not
  a Monday.
\<close>

theorem weekly_periods_in_range:
  assumes "compute_period_targets df_raw start_date end_date selected_forms selected_locations = Inr rows"
    and "r \<in> set rows" and "interval r = ''Weekly''"
  shows "periods_in_range r =
     card {n. toordinal start_date \<le> n \<and> n \<le> toordinal end_date \<and> weekday_ord n = 0}
       + (if weekday start_date = 0 then 0 else 1)"
proof -
  from compute_period_targets_mem [OF assms(1,2)] obtain name rq loc n where
    rq: "FORM_COMPLIANCE_get name = Some rq"
    and r: "r = summary_row name rq (period_count (req_interval rq) start_date end_date) loc n"
    by blast
  from r assms(3) have "capitalize (req_interval rq) = ''Weekly''"
    by (simp add: summary_row_def Let_def)
  with rule_intervals [OF rq] have "req_interval rq = ''weekly''"
    by auto
  with r have "periods_in_range r = period_count ''weekly'' start_date end_date"
    by (simp add: summary_row_def Let_def)
  then show ?thesis
    by (simp only: period_count_weekly)
qed

theorem weekly_periods_in_range_witness:
  "compute_period_targets [hazard_A] jan3 jan15 [''Parking/Work Area Hazard''] [] =
     Inr [\<lparr>form_name = ''Parking/Work Area Hazard'', location = ''A'', interval = ''Weekly'',
           periods_in_range = 3, quota_per_period = 1, target_total = 3, actual_total = 1,
           percent_complete = 2343279181116211 / 70368744177664, status = ''Missing 2''\<rparr>] \<and>
   weekday jan3 = 2 \<and>
   date_range_W_MON jan3 jan15 = [toordinal jan8, toordinal jan15] \<and>
   card {n. toordinal jan3 \<le> n \<and> n \<le> toordinal jan15 \<and> weekday_ord n = 0} = 2"
proof -
  let ?r = "\<lparr>form_name = ''Parking/Work Area Hazard'', location = ''A'', interval = ''Weekly'',
           periods_in_range = 3, quota_per_period = 1, target_total = 3, actual_total = 1,
           percent_complete = 2343279181116211 / 70368744177664, status = ''Missing 2''\<rparr>"
  have wd: "weekday jan3 = 2"
    by (simp add: date_eval jan3_def)
  have mondays: "date_range_W_MON jan3 jan15 = [toordinal jan8, toordinal jan15]"
    by (simp add: date_eval jan3_def jan8_def jan15_def)
  have "periods_in_range ?r =
     card {n. toordinal jan3 \<le> n \<and> n \<le> toordinal jan15 \<and> weekday_ord n = 0}
       + (if weekday jan3 = 0 then 0 else 1)"
    by (rule weekly_periods_in_range [OF weekly_run]) simp_all
  then have "card {n. toordinal jan3 \<le> n \<and> n \<le> toordinal jan15 \<and> weekday_ord n = 0} = 2"
    using wd by simp
  then show ?thesis
    using weekly_run wd mondays by simp
qed

text \<open>
  C7. For every row, \<open>percent_complete\<close> is 0 when \<open>target_total\<close> is 0, whatever
  \<open>actual_total\<close> is; otherwise it is the float quotient \<open>100 * actual_total / target_total\<close>
  rounded to one decimal: the float nearest to a tenth \<open>k / 10\<close> that lies within one
  twentieth of the quotient.
\<close>

theorem percent_complete_rounded:
  assumes "compute_period_targets df_raw start_date end_date selected_forms selected_locations = Inr rows"
    and "r \<in> set rows"
  shows "(target_total r = 0 \<longrightarrow> percent_complete r = 0) \<and>
         (target_total r \<noteq> 0 \<longrightarrow>
            percent_complete r = py_round1 (py_truediv (100 * actual_total r) (target_total r)) \<and>
            (\<exists>k. percent_complete r = nearest_double (of_int k / 10) \<and>
                 \<bar>of_int k / 10 - py_truediv (100 * actual_total r) (target_total r)\<bar> \<le> 1 / 20))"
proof -
  from compute_period_targets_mem [OF assms] obtain name rq loc n where
    "r = summary_row name rq (period_count (req_interval rq) start_date end_date) loc n"
    by blast
  then have r: "percent_complete r =
      py_round1 (if target_total r \<noteq> 0 then py_truediv (100 * actual_total r) (target_total r) else 0)"
    by (simp add: summary_row_def Let_def)
  have "\<exists>k. py_round1 q = nearest_double (of_int k / 10) \<and> \<bar>of_int k / 10 - q\<bar> \<le> 1 / 20" for q
    unfolding py_round1_def using py_round1_nearest_tenth [of q] by blast
  with r show ?thesis
    by auto
qed

theorem percent_complete_rounded_witness:
  "compute_period_targets [hazard_A] jan3 jan15 [''Parking/Work Area Hazard''] [] =
     Inr [\<lparr>form_name = ''Parking/Work Area Hazard'', location = ''A'', interval = ''Weekly'',
           periods_in_range = 3, quota_per_period = 1, target_total = 3, actual_total = 1,
           percent_complete = 2343279181116211 / 70368744177664, status = ''Missing 2''\<rparr>] \<and>
   py_round1 (py_truediv (100 * 1) 3) = 2343279181116211 / 70368744177664 \<and>
   compute_period_targets [hazard_A] jan15 jan8 [''Parking/Work Area Hazard''] [] =
     Inr [\<lparr>form_name = ''Parking/Work Area Hazard'', location = ''A'', interval = ''Weekly'',
           periods_in_range = 0, quota_per_period = 1, target_total = 0, actual_total = 1,
           percent_complete = 0, status = ''Met''\<rparr>]"
  using percent_complete_rounded [OF weekly_run, of
      "\<lparr>form_name = ''Parking/Work Area Hazard'', location = ''A'', interval = ''Weekly'',
           periods_in_range = 3, quota_per_period = 1, target_total = 3, actual_total = 1,
           percent_complete = 2343279181116211 / 70368744177664, status = ''Missing 2''\<rparr>"]
    percent_complete_rounded [OF monday_reversed_run, of
      "\<lparr>form_name = ''Parking/Work Area Hazard'', location = ''A'', interval = ''Weekly'',
           periods_in_range = 0, quota_per_period = 1, target_total = 0, actual_total = 1,
           percent_complete = 0, status = ''Met''\<rparr>"]
    weekly_run monday_reversed_run
  by simp

lemma map_key_rows_of_form:
  "FORM_COMPLIANCE_get name \<noteq> None \<Longrightarrow>
   map (\<lambda>r. (form_name r, location r)) (rows_of_form df_raw start_date end_date locs name) =
     map (Pair name) locs"
  by (auto simp: rows_of_form_def summary_row_def Let_def)

lemma map_key_concat_rows:
  "\<forall>name\<in>set names. FORM_COMPLIANCE_get name \<noteq> None \<Longrightarrow>
   map (\<lambda>r. (form_name r, location r))
     (concat (map (rows_of_form df_raw start_date end_date locs) names)) =
   List.product names locs"
  by (induction names) (simp_all add: map_key_rows_of_form)

lemma set_dropna: "set (dropna xs) = {x. Some x \<in> set xs}"
  by (induction xs rule: dropna.induct) auto

lemma set_unique [simp]: "set (unique xs) = set xs"
  by (simp add: unique_def)

lemma distinct_unique [simp]: "distinct (unique xs)"
  by (simp add: unique_def)

lemma effective_locations_observed:
  "sorted (effective_locations df_raw [])"
  "distinct (effective_locations df_raw [])"
  "set (effective_locations df_raw []) = {l. Some l \<in> sub_location ` set df_raw}"
  by (simp_all add: effective_locations_def set_dropna)

text \<open>
  C8, as the code has it. The rows are grouped by form, in the order in which the forms
  with a rule were selected; within each form they follow one list of locations: the
  selected locations in the order given when there are any, and otherwise the distinct
  locations of the raw data in ascending order.
\<close>

theorem rows_follow_forms_then_location_list:
  assumes "compute_period_targets df_raw start_date end_date selected_forms selected_locations = Inr rows"
  shows "\<exists>locs. map (\<lambda>r. (form_name r, location r)) rows =
             List.product (filter (\<lambda>f. FORM_COMPLIANCE_get f \<noteq> None) selected_forms) locs \<and>
           (selected_locations \<noteq> [] \<longrightarrow> locs = selected_locations) \<and>
           (selected_locations = [] \<longrightarrow>
              sorted locs \<and> distinct locs \<and> set locs = {l. Some l \<in> sub_location ` set df_raw})"
proof -
  let ?locs = "effective_locations df_raw selected_locations"
  have "map (\<lambda>r. (form_name r, location r)) rows = List.product (compliance_forms selected_forms) ?locs"
    unfolding compute_period_targets_Inr [OF assms]
    by (rule map_key_concat_rows) (simp add: compliance_forms_def)
  moreover have "selected_locations \<noteq> [] \<longrightarrow> ?locs = selected_locations"
    by (simp add: effective_locations_def)
  moreover have "selected_locations = [] \<longrightarrow>
      sorted ?locs \<and> distinct ?locs \<and> set ?locs = {l. Some l \<in> sub_location ` set df_raw}"
    using effective_locations_observed [of df_raw] by auto
  ultimately show ?thesis
    unfolding compliance_forms_def by blast
qed

theorem rows_follow_forms_then_location_list_witness:
  "compute_period_targets [hazard_A] jan3 jan15 [''Parking/Work Area Hazard''] [''B'', ''A''] =
     Inr [\<lparr>form_name = ''Parking/Work Area Hazard'', location = ''B'', interval = ''Weekly'',
           periods_in_range = 3, quota_per_period = 1, target_total = 3, actual_total = 0,
           percent_complete = 0, status = ''Missing 3''\<rparr>,
          \<lparr>form_name = ''Parking/Work Area Hazard'', location = ''A'', interval = ''Weekly'',
           periods_in_range = 3, quota_per_period = 1, target_total = 3, actual_total = 1,
           percent_complete = 2343279181116211 / 70368744177664, status = ''Missing 2''\<rparr>] \<and>
   (\<exists>locs.
      [(''Parking/Work Area Hazard'', ''B''), (''Parking/Work Area Hazard'', ''A'')] =
        List.product [''Parking/Work Area Hazard''] locs \<and> locs = [''B'', ''A'']) \<and>
   compute_period_targets [valet_A] jan1 jan1 [''Overnight Valet'', ''Daily Huddle''] [] =
     Inr two_forms \<and>
   (\<exists>locs.
      map (\<lambda>r. (form_name r, location r)) two_forms =
        List.product [''Overnight Valet'', ''Daily Huddle''] locs \<and>
      sorted locs \<and> distinct locs \<and> set locs = {l. Some l \<in> sub_location ` set [valet_A]})"
  using rows_follow_forms_then_location_list [OF unsorted_run]
    rows_follow_forms_then_location_list [OF two_forms_from_calculator]
    unsorted_run two_forms_from_calculator
  by (simp add: FORM_COMPLIANCE_get_def FORM_COMPLIANCE_def)

text \<open>The claim as stated fails for the selected locations \<open>B, A\<close>: the rows come in
  that order.\<close>

theorem rows_not_sorted_by_location_counterexample:
  "compute_period_targets [hazard_A] jan3 jan15 [''Parking/Work Area Hazard''] [''B'', ''A''] =
     Inr [\<lparr>form_name = ''Parking/Work Area Hazard'', location = ''B'', interval = ''Weekly'',
           periods_in_range = 3, quota_per_period = 1, target_total = 3, actual_total = 0,
           percent_complete = 0, status = ''Missing 3''\<rparr>,
          \<lparr>form_name = ''Parking/Work Area Hazard'', location = ''A'', interval = ''Weekly'',
           periods_in_range = 3, quota_per_period = 1, target_total = 3, actual_total = 1,
           percent_complete = 2343279181116211 / 70368744177664, status = ''Missing 2''\<rparr>] \<and>
   \<not> sorted [''B'', ''A'']"
  using unsorted_run by simp

lemma compute_period_targets_empty_raw:
  assumes "compute_period_targets [] start_date end_date selected_forms selected_locations = Inr rows"
  shows "rows = []"
  using assms
  by (auto simp: compute_period_targets_def all_locations_def form_loop_empty split: if_splits)

text \<open>
  What the code does keep of the sources of locations: the location of every row comes
  from the selected locations when there are any, and otherwise from the locations of the
  raw submissions that are not missing; the rules play no part. Such a location without a
  submission of a selected form with a rule still has a row of that form, with
  \<open>actual_total\<close> 0 and the status \<open>Missing N\<close> with \<open>N\<close> the target (\<open>Met\<close> when the
  target is 0, which takes an end date before the start date).
\<close>

lemma row_location_sources:
  assumes "compute_period_targets df_raw start_date end_date selected_forms selected_locations = Inr rows"
  shows "(\<forall>r\<in>set rows.
            (selected_locations \<noteq> [] \<longrightarrow> location r \<in> set selected_locations) \<and>
            (selected_locations = [] \<longrightarrow> Some (location r) \<in> sub_location ` set df_raw)) \<and>
         (\<forall>name\<in>set selected_forms. \<forall>loc.
            FORM_COMPLIANCE_get name \<noteq> None \<longrightarrow>
            (if selected_locations \<noteq> [] then loc \<in> set selected_locations
             else Some loc \<in> sub_location ` set df_raw) \<longrightarrow>
            (\<forall>s\<in>set df_raw. \<not> (sub_form_name s = name \<and> sub_location s = Some loc)) \<longrightarrow>
            (\<exists>r\<in>set rows. form_name r = name \<and> location r = loc \<and> actual_total r = 0 \<and>
               status r = (if target_total r = 0 then ''Met''
                           else ''Missing '' @ str_nat (target_total r))))"
proof (intro conjI ballI allI impI)
  fix r
  assume r: "r \<in> set rows"
  from compute_period_targets_mem [OF assms r]
  have loc: "location r \<in> set (effective_locations df_raw selected_locations)"
    by (auto simp: summary_row_def Let_def)
  show "location r \<in> set selected_locations" if "selected_locations \<noteq> []"
    using loc that by (simp add: effective_locations_def)
  show "Some (location r) \<in> sub_location ` set df_raw" if "selected_locations = []"
    using loc that effective_locations_observed(3) [of df_raw] by simp
next
  fix name loc
  let ?locs = "effective_locations df_raw selected_locations"
  assume name: "name \<in> set selected_forms"
    and rule: "FORM_COMPLIANCE_get name \<noteq> None"
    and loc: "if selected_locations \<noteq> [] then loc \<in> set selected_locations
              else Some loc \<in> sub_location ` set df_raw"
    and none: "\<forall>s\<in>set df_raw. \<not> (sub_form_name s = name \<and> sub_location s = Some loc)"
  from rule obtain rq where rq: "FORM_COMPLIANCE_get name = Some rq"
    by auto
  define r where "r = summary_row name rq (period_count (req_interval rq) start_date end_date) loc 0"
  have "loc \<in> set ?locs"
  proof (cases "selected_locations = []")
    case True
    with loc show ?thesis
      using effective_locations_observed(3) [of df_raw] by simp
  next
    case False
    with loc show ?thesis
      by (simp add: effective_locations_def)
  qed
  moreover have "filter (\<lambda>s. sub_form_name s = name \<and> sub_location s = Some loc) df_raw = []"
    using none by (simp add: filter_empty_conv)
  ultimately have "r \<in> set (rows_of_form df_raw start_date end_date ?locs name)"
    using rq by (auto simp: rows_of_form_def r_def intro!: image_eqI [where x = loc])
  moreover have "name \<in> set (compliance_forms selected_forms)"
    using name rule by (simp add: compliance_forms_def)
  ultimately have "r \<in> set rows"
    unfolding compute_period_targets_Inr [OF assms] by auto
  moreover have "form_name r = name \<and> location r = loc \<and> actual_total r = 0 \<and>
      status r = (if target_total r = 0 then ''Met'' else ''Missing '' @ str_nat (target_total r))"
    by (simp add: r_def summary_row_def Let_def)
  ultimately show "\<exists>r\<in>set rows. form_name r = name \<and> location r = loc \<and> actual_total r = 0 \<and>
      status r = (if target_total r = 0 then ''Met'' else ''Missing '' @ str_nat (target_total r))"
    by blast
qed

text \<open>
  C5. The code breaks the claim on blank locations. A submission whose location question
  has no answer is extracted with the location \<open>''\<close>; when no location is selected,
  line 85 only drops the missing locations, so the blank one is kept and the result has
  a row of location \<open>''\<close>, where the claim admits only locations that are not blank,
  as the location picker of line 173 does.
\<close>

theorem blank_location_gets_a_row:
  "extract_row
     \<lparr>api_id = ''5803'', api_created_at = ''2024-01-05 09:00:00'',
      api_answers = [(''3'', \<lparr>ans_name = ''location'', ans_answer = None\<rparr>)]\<rparr>
     ''233176683727163'' ''location'' = hazard_blank \<and>
   sub_location hazard_blank = Some '''' \<and>
   compute_period_targets [hazard_blank] jan3 jan15 [''Parking/Work Area Hazard''] [] =
     Inr [\<lparr>form_name = ''Parking/Work Area Hazard'', location = '''', interval = ''Weekly'',
           periods_in_range = 3, quota_per_period = 1, target_total = 3, actual_total = 1,
           percent_complete = 2343279181116211 / 70368744177664, status = ''Missing 2''\<rparr>]"
  using hazard_blank_extracted blank_run by (simp add: hazard_blank_def)

lemma key_counts:
  "length (filter (\<lambda>s. sub_form_name s = name \<and> sub_location s = Some loc) df_raw) =
   length (filter (\<lambda>k. k = (name, Some loc)) (map (\<lambda>s. (sub_form_name s, sub_location s)) df_raw))"
  by (induction df_raw) auto

lemma key_locations:
  "map sub_location df_raw = map snd (map (\<lambda>s. (sub_form_name s, sub_location s)) df_raw)"
  by simp

text \<open>
  C9. Two raw frames that agree row for row on the form name and the location give the
  same result, whatever their identifiers and timestamps are.
\<close>

theorem output_depends_on_form_and_location_only:
  assumes "map (\<lambda>s. (sub_form_name s, sub_location s)) df1 =
           map (\<lambda>s. (sub_form_name s, sub_location s)) df2"
  shows "compute_period_targets df1 start_date end_date selected_forms selected_locations =
         compute_period_targets df2 start_date end_date selected_forms selected_locations"
proof (cases "df1 = []")
  case True
  with assms have "df2 = []"
    by simp
  with True show ?thesis
    by simp
next
  case False
  with assms have ne: "df2 \<noteq> []"
    by auto
  have locs: "effective_locations df1 selected_locations = effective_locations df2 selected_locations"
    unfolding effective_locations_def key_locations [of df1] key_locations [of df2] assms ..
  have "rows_of_form df1 start_date end_date locs name = rows_of_form df2 start_date end_date locs name"
    for locs name
    unfolding rows_of_form_def key_counts [of _ _ df1] key_counts [of _ _ df2] assms ..
  then have "rows_of_form df1 start_date end_date locs = rows_of_form df2 start_date end_date locs"
    for locs
    by (rule ext)
  then show ?thesis
    by (simp add: compute_period_targets_nonempty False ne locs)
qed

theorem output_depends_on_form_and_location_only_witness:
  "map (\<lambda>s. (sub_form_name s, sub_location s)) [hazard_A] =
     map (\<lambda>s. (sub_form_name s, sub_location s)) [hazard_A'] \<and>
   submission_id hazard_A \<noteq> submission_id hazard_A' \<and>
   submitted_at hazard_A \<noteq> submitted_at hazard_A' \<and>
   compute_period_targets [hazard_A] jan3 jan15 [''Parking/Work Area Hazard''] [] =
     compute_period_targets [hazard_A'] jan3 jan15 [''Parking/Work Area Hazard''] []"
proof -
  have h: "map (\<lambda>s. (sub_form_name s, sub_location s)) [hazard_A] =
     map (\<lambda>s. (sub_form_name s, sub_location s)) [hazard_A']"
    by (simp add: hazard_A_def hazard_A'_def)
  show ?thesis
    using h output_depends_on_form_and_location_only [OF h]
    by (simp add: hazard_A_def hazard_A'_def)
qed


lemma list_all2_concat_map:
  "(\<And>x. x \<in> set xs \<Longrightarrow> list_all2 R (f x) (g x)) \<Longrightarrow>
   list_all2 R (concat (map f xs)) (concat (map g xs))"
  by (induction xs) (auto intro: list_all2_appendI)

lemma list_all2_map_same:
  "(\<And>x. x \<in> set xs \<Longrightarrow> R (f x) (g x)) \<Longrightarrow> list_all2 R (map f xs) (map g xs)"
  by (simp add: list_all2_map1 list_all2_map2 list_all2_same)

lemma percent_mono:
  assumes "a \<le> a'"
  shows "py_round1 (if t \<noteq> 0 then py_truediv (100 * a) t else 0) \<le>
         py_round1 (if t \<noteq> 0 then py_truediv (100 * a') t else 0)"
proof (cases "t = 0")
  case True
  then show ?thesis by simp
next
  case False
  have "py_round1 (py_truediv (100 * a) t) \<le> py_round1 (py_truediv (100 * a') t)"
    using assms by (intro py_round1_mono py_truediv_mono py_truediv_nonneg) simp
  with False show ?thesis by simp
qed

lemma summary_row_percent_mono:
  assumes "a \<le> a'"
  shows "percent_complete (summary_row name rq n loc a) \<le>
         percent_complete (summary_row name rq n loc a')"
proof -
  have "percent_complete (summary_row name rq n loc b) =
      py_round1 (if n * quota rq \<noteq> 0 then py_truediv (100 * b) (n * quota rq) else 0)" for b
    by (simp add: summary_row_def Let_def)
  then show ?thesis
    by (simp only: percent_mono [OF assms])
qed

lemma summary_row_bump:
  "summary_row name rq n loc (a + 1) =
     (summary_row name rq n loc a)
       \<lparr>actual_total := actual_total (summary_row name rq n loc a) + 1,
        percent_complete := percent_complete (summary_row name rq n loc (a + 1)),
        status := status (summary_row name rq n loc (a + 1))\<rparr>"
  by (simp add: summary_row_def Let_def)

lemma summary_row_key [simp]:
  "form_name (summary_row name rq n loc a) = name"
  "location (summary_row name rq n loc a) = loc"
  by (simp_all add: summary_row_def Let_def)

lemma effective_locations_append:
  assumes "loc \<in> set (effective_locations df_raw selected_locations)"
    and "sub_location sub = Some loc"
  shows "effective_locations (df_raw @ [sub]) selected_locations =
         effective_locations df_raw selected_locations"
proof (cases "selected_locations = []")
  case False
  then show ?thesis
    by (simp add: effective_locations_def)
next
  case True
  let ?old = "sort (unique (dropna (map sub_location df_raw)))"
  let ?new = "sort (unique (dropna (map sub_location (df_raw @ [sub]))))"
  from assms True have "Some loc \<in> set (map sub_location df_raw)"
    by (simp add: effective_locations_def set_dropna)
  then have "set ?new = set ?old"
    using assms(2) by (auto simp: set_dropna)
  moreover have "sorted ?new" "distinct ?new" "sorted ?old" "distinct ?old"
    by simp_all
  ultimately have "?new = ?old"
    by (rule sorted_distinct_set_unique [rotated 4])
  with True show ?thesis
    by (simp add: effective_locations_def)
qed

text \<open>
  C10. Appending one submission whose form and location are those of a row of the result
  adds 1 to the \<open>actual_total\<close> of the rows of that form and location, never lowers their
  \<open>percent_complete\<close>, and changes nothing else in them but the status; every other row
  stays as it is.
\<close>

theorem appended_submission_raises_its_row:
  assumes "compute_period_targets df_raw start_date end_date selected_forms selected_locations = Inr rows"
    and "r \<in> set rows"
    and "sub_form_name sub = form_name r" and "sub_location sub = Some (location r)"
  shows "\<exists>rows'.
           compute_period_targets (df_raw @ [sub]) start_date end_date selected_forms
             selected_locations = Inr rows' \<and>
           list_all2
             (\<lambda>x y. if form_name x = form_name r \<and> location x = location r
                     then y = x\<lparr>actual_total := actual_total x + 1,
                                 percent_complete := percent_complete y, status := status y\<rparr> \<and>
                          percent_complete x \<le> percent_complete y
                     else y = x)
             rows rows'"
proof -
  let ?R = "\<lambda>x y. if form_name x = form_name r \<and> location x = location r
                     then y = x\<lparr>actual_total := actual_total x + 1,
                                 percent_complete := percent_complete y, status := status y\<rparr> \<and>
                          percent_complete x \<le> percent_complete y
                     else y = x"
  let ?locs = "effective_locations df_raw selected_locations"
  let ?forms = "compliance_forms selected_forms"
  have ne: "df_raw \<noteq> []"
    using assms(1,2) compute_period_targets_empty_raw by fastforce
  from compute_period_targets_mem [OF assms(1,2)]
  have "location r \<in> set ?locs"
    by (auto simp: summary_row_def Let_def)
  then have locs: "effective_locations (df_raw @ [sub]) selected_locations = ?locs"
    using assms(4) by (rule effective_locations_append)
  have rows: "rows = concat (map (rows_of_form df_raw start_date end_date ?locs) ?forms)"
    by (rule compute_period_targets_Inr [OF assms(1)])
  have new: "compute_period_targets (df_raw @ [sub]) start_date end_date selected_forms
      selected_locations =
      Inr (concat (map (rows_of_form (df_raw @ [sub]) start_date end_date ?locs) ?forms))"
    by (simp add: compute_period_targets_nonempty locs)
  have "list_all2 ?R (rows_of_form df_raw start_date end_date ?locs name)
          (rows_of_form (df_raw @ [sub]) start_date end_date ?locs name)" for name
  proof (cases "FORM_COMPLIANCE_get name")
    case None
    then show ?thesis
      by (simp add: rows_of_form_def)
  next
    case (Some rq)
    show ?thesis
      unfolding rows_of_form_def Some option.case
    proof (rule list_all2_map_same)
      fix loc
      let ?n = "period_count (req_interval rq) start_date end_date"
      let ?c = "length (filter (\<lambda>s. sub_form_name s = name \<and> sub_location s = Some loc) df_raw)"
      let ?c' = "length (filter (\<lambda>s. sub_form_name s = name \<and> sub_location s = Some loc)
                   (df_raw @ [sub]))"
      have c': "?c' = (if name = form_name r \<and> loc = location r then ?c + 1 else ?c)"
        using assms(3,4) by auto
      show "?R (summary_row name rq ?n loc ?c) (summary_row name rq ?n loc ?c')"
      proof (cases "name = form_name r \<and> loc = location r")
        case True
        have "percent_complete (summary_row name rq ?n loc ?c) \<le>
            percent_complete (summary_row name rq ?n loc (?c + 1))"
          by (rule summary_row_percent_mono) simp
        moreover have "?c' = ?c + 1"
          using c' True by simp
        ultimately show ?thesis
          using True summary_row_bump [of name rq ?n loc ?c] by (simp only: summary_row_key if_True simp_thms)
      next
        case False
        then have "?c' = ?c"
          using c' by simp
        with False show ?thesis
          by (simp only: summary_row_key if_False)
      qed
    qed
  qed
  then have "list_all2 ?R rows
      (concat (map (rows_of_form (df_raw @ [sub]) start_date end_date ?locs) ?forms))"
    unfolding rows by (intro list_all2_concat_map)
  with new show ?thesis
    by blast
qed

theorem appended_submission_raises_its_row_witness:
  "compute_period_targets [hazard_A] jan3 jan15 [''Parking/Work Area Hazard''] [''B'', ''A''] =
     Inr [\<lparr>form_name = ''Parking/Work Area Hazard'', location = ''B'', interval = ''Weekly'',
           periods_in_range = 3, quota_per_period = 1, target_total = 3, actual_total = 0,
           percent_complete = 0, status = ''Missing 3''\<rparr>,
          \<lparr>form_name = ''Parking/Work Area Hazard'', location = ''A'', interval = ''Weekly'',
           periods_in_range = 3, quota_per_period = 1, target_total = 3, actual_total = 1,
           percent_complete = 2343279181116211 / 70368744177664, status = ''Missing 2''\<rparr>] \<and>
   sub_form_name hazard_A' = ''Parking/Work Area Hazard'' \<and> sub_location hazard_A' = Some ''A'' \<and>
   (\<exists>rows'.
      compute_period_targets ([hazard_A] @ [hazard_A']) jan3 jan15 [''Parking/Work Area Hazard'']
        [''B'', ''A''] = Inr rows' \<and>
      map location rows' = [''B'', ''A''] \<and>
      map actual_total rows' = [0, 2] \<and>
      map percent_complete rows' = [0, 4693595236650189 / 70368744177664] \<and>
      (2343279181116211 / 70368744177664 :: rat) \<le> 4693595236650189 / 70368744177664)"
  using appended_submission_raises_its_row [OF unsorted_run, of
      "\<lparr>form_name = ''Parking/Work Area Hazard'', location = ''A'', interval = ''Weekly'',
           periods_in_range = 3, quota_per_period = 1, target_total = 3, actual_total = 1,
           percent_complete = 2343279181116211 / 70368744177664, status = ''Missing 2''\<rparr>" "hazard_A'"]
    unsorted_run unsorted_run_two
  by (simp add: hazard_A'_def)

section \<open>Sample runs of the ranker\<close>

lemma float_values:
  "nearest_double 100 = 100" "nearest_double 80 = 80" "nearest_double 50 = 50"
  "nearest_double (2343279181116211 / 70368744177664) = 2343279181116211 / 70368744177664"
  "nearest_double (2932617413604147 / 17592186044416) = 2932617413604147 / 17592186044416"
  "nearest_double (14073748835532799 / 70368744177664) = 200"
  by (simp_all add: float_eval)

lemma mean_samples:
  "mean [100] = 100" "mean [80] = 80" "mean [100, 0] = 50"
  "mean [2343279181116211 / 70368744177664, 2932617413604147 / 17592186044416] = 100"
  by (simp_all add: mean_single mean_pair float_values)

lemmas ranker_eval = leaderboard_with_badges_def sort_values_desc_def groupby_location_def
  unique_def agg_def mean_samples rank_min_desc_def Let_def agg_row.defs leader_row.defs

lemma three_locations_run:
  "leaderboard_with_badges three_locations =
     \<lparr>columns = [''location'', ''forms_tracked'', ''total_target'', ''total_actual'',
                  ''overall_percent'', ''Badge'', ''Rank''],
      lb_rows =
        [\<lparr>lb_location = ''A'', forms_tracked = 1, total_target = 5, total_actual = 5,
           overall_percent = 100, Badge = Gold_Star, Rank = 1\<rparr>,
         \<lparr>lb_location = ''B'', forms_tracked = 1, total_target = 5, total_actual = 5,
           overall_percent = 100, Badge = Gold_Star, Rank = 1\<rparr>,
         \<lparr>lb_location = ''C'', forms_tracked = 1, total_target = 5, total_actual = 4,
           overall_percent = 80, Badge = Bronze_Star, Rank = 3\<rparr>]\<rparr>"
  by (simp add: three_locations_def valet_row_def ranker_eval)



section \<open>Claims about the ranker\<close>

lemma overall_percent_extend [simp]:
  "overall_percent (agg_row.extend a m) = overall_percent a"
  "lb_location (agg_row.extend a m) = lb_location a"
  "forms_tracked (agg_row.extend a m) = forms_tracked a"
  "total_target (agg_row.extend a m) = total_target a"
  "total_actual (agg_row.extend a m) = total_actual a"
  by (simp_all add: agg_row.defs)

lemma Rank_extend [simp]:
  "Rank (agg_row.extend a \<lparr>Badge = b, Rank = k\<rparr>) = k"
  "Badge (agg_row.extend a \<lparr>Badge = b, Rank = k\<rparr>) = b"
  by (simp_all add: agg_row.defs leader_row.defs)

lemma lb_rows_nonempty:
  assumes "compliance_summary \<noteq> []"
  shows "lb_rows (leaderboard_with_badges compliance_summary) =
     map (\<lambda>r. agg_row.extend r
            \<lparr>Badge = badge_row r,
             Rank = rank_min_desc
               (map overall_percent (sort_values_desc (groupby_location compliance_summary)))
               (overall_percent r)\<rparr>)
       (sort_values_desc (groupby_location compliance_summary))"
  using assms by (simp add: leaderboard_with_badges_def Let_def)

lemma lb_rows_empty [simp]: "lb_rows (leaderboard_with_badges []) = []"
  by (simp add: leaderboard_with_badges_def)

lemma overall_percent_column:
  "map overall_percent (lb_rows (leaderboard_with_badges compliance_summary)) =
   map overall_percent (sort_values_desc (groupby_location compliance_summary))"
proof (cases "compliance_summary = []")
  case True
  then show ?thesis
    by (simp add: groupby_location_def sort_values_desc_def unique_def)
next
  case False
  then show ?thesis
    by (simp add: lb_rows_nonempty o_def del: badge_row.simps)
qed

lemma location_column:
  "map lb_location (lb_rows (leaderboard_with_badges compliance_summary)) =
   map lb_location (sort_values_desc (groupby_location compliance_summary))"
proof (cases "compliance_summary = []")
  case True
  then show ?thesis
    by (simp add: groupby_location_def sort_values_desc_def unique_def)
next
  case False
  then show ?thesis
    by (simp add: lb_rows_nonempty o_def del: badge_row.simps)
qed

lemma groupby_location_keys:
  "map lb_location (groupby_location compliance_summary) =
   sort (unique (map location compliance_summary))"
  by (simp add: groupby_location_def agg_def Let_def o_def)

text \<open>The leaderboard has one row for each location of its input.\<close>

lemma one_row_per_location:
  "distinct (map lb_location (lb_rows (leaderboard_with_badges compliance_summary)))"
  "set (map lb_location (lb_rows (leaderboard_with_badges compliance_summary))) =
     location ` set compliance_summary"
proof -
  let ?out = "lb_rows (leaderboard_with_badges compliance_summary)"
  have "mset (map lb_location ?out) = mset (map lb_location (groupby_location compliance_summary))"
    by (simp add: location_column sort_values_desc_def)
  then have m: "mset (map lb_location ?out) = mset (sort (unique (map location compliance_summary)))"
    by (simp only: groupby_location_keys)
  have "distinct (sort (unique (map location compliance_summary)))"
    by simp
  with m show "distinct (map lb_location ?out)"
    by (metis mset_eq_imp_distinct_iff)
  from m have "set (map lb_location ?out) = set (sort (unique (map location compliance_summary)))"
    by (rule mset_eq_setD)
  then show "set (map lb_location ?out) = location ` set compliance_summary"
    by simp
qed

lemma length_filter_map: "length (filter P (map f xs)) = length (filter (\<lambda>x. P (f x)) xs)"
  by (induction xs) simp_all

lemma rank_of_row:
  assumes "r \<in> set (lb_rows (leaderboard_with_badges compliance_summary))"
  shows "Rank r = Suc (length (filter (\<lambda>x. overall_percent r < overall_percent x)
                    (lb_rows (leaderboard_with_badges compliance_summary))))"
proof -
  let ?out = "lb_rows (leaderboard_with_badges compliance_summary)"
  have ne: "compliance_summary \<noteq> []"
    using assms by auto
  from assms have "Rank r = rank_min_desc
      (map overall_percent (sort_values_desc (groupby_location compliance_summary)))
      (overall_percent r)"
    unfolding lb_rows_nonempty [OF ne] by (auto simp del: badge_row.simps)
  also have "\<dots> = Suc (length (filter (\<lambda>w. overall_percent r < w) (map overall_percent ?out)))"
    by (simp only: rank_min_desc_def overall_percent_column)
  finally show ?thesis
    by (simp only: length_filter_map)
qed


lemma length_filter_split:
  assumes "\<And>y. y \<in> set xs \<Longrightarrow> P y \<longleftrightarrow> Q y \<or> R y"
    and "\<And>y. y \<in> set xs \<Longrightarrow> \<not> (Q y \<and> R y)"
  shows "length (filter P xs) = length (filter Q xs) + length (filter R xs)"
  using assms by (induction xs) auto

text \<open>
  C1, as the code has it. The rank of a row is one more than the number of rows, that is
  of locations, with a strictly higher \<open>overall_percent\<close>. So rows of equal percentage
  share a rank, a row that no row exceeds has rank 1, and the rows of the next lower
  percentage come after the rank of \<open>k\<close> tied rows by \<open>k\<close>, not by 1.
\<close>

theorem rank_counts_higher_rows:
  assumes "r \<in> set (lb_rows (leaderboard_with_badges compliance_summary))"
  shows "Rank r = length (filter (\<lambda>x. overall_percent r < overall_percent x)
                    (lb_rows (leaderboard_with_badges compliance_summary))) + 1 \<and>
         (\<forall>x\<in>set (lb_rows (leaderboard_with_badges compliance_summary)).
            overall_percent x = overall_percent r \<longrightarrow> Rank x = Rank r) \<and>
         ((\<forall>x\<in>set (lb_rows (leaderboard_with_badges compliance_summary)).
            overall_percent x \<le> overall_percent r) \<longrightarrow> Rank r = 1) \<and>
         (\<forall>x\<in>set (lb_rows (leaderboard_with_badges compliance_summary)).
            overall_percent x < overall_percent r \<longrightarrow>
            (\<forall>y\<in>set (lb_rows (leaderboard_with_badges compliance_summary)).
               \<not> (overall_percent x < overall_percent y \<and> overall_percent y < overall_percent r)) \<longrightarrow>
            Rank x = Rank r + length (filter (\<lambda>y. overall_percent y = overall_percent r)
                                (lb_rows (leaderboard_with_badges compliance_summary))))"
proof (intro conjI ballI impI)
  let ?out = "lb_rows (leaderboard_with_badges compliance_summary)"
  show "Rank r = length (filter (\<lambda>x. overall_percent r < overall_percent x) ?out) + 1"
    using rank_of_row [OF assms] by simp
  show "Rank x = Rank r" if "x \<in> set ?out" "overall_percent x = overall_percent r" for x
    using rank_of_row [OF assms] rank_of_row [OF that(1)] that(2) by simp
  show "Rank r = 1" if "\<forall>x\<in>set ?out. overall_percent x \<le> overall_percent r"
  proof -
    have "filter (\<lambda>x. overall_percent r < overall_percent x) ?out = []"
      using that by (auto simp: filter_empty_conv)
    then show ?thesis
      using rank_of_row [OF assms] by simp
  qed
  show "Rank x = Rank r + length (filter (\<lambda>y. overall_percent y = overall_percent r) ?out)"
    if x: "x \<in> set ?out" and lt: "overall_percent x < overall_percent r"
      and gap: "\<forall>y\<in>set ?out.
        \<not> (overall_percent x < overall_percent y \<and> overall_percent y < overall_percent r)"
    for x
  proof -
    have "length (filter (\<lambda>y. overall_percent x < overall_percent y) ?out) =
        length (filter (\<lambda>y. overall_percent r < overall_percent y) ?out) +
        length (filter (\<lambda>y. overall_percent y = overall_percent r) ?out)"
    proof (rule length_filter_split)
      fix y
      assume "y \<in> set ?out"
      with gap lt show "overall_percent x < overall_percent y \<longleftrightarrow>
          overall_percent r < overall_percent y \<or> overall_percent y = overall_percent r"
        by auto
      show "\<not> (overall_percent r < overall_percent y \<and> overall_percent y = overall_percent r)"
        by auto
    qed
    then show ?thesis
      using rank_of_row [OF assms] rank_of_row [OF x] by simp
  qed
qed

theorem rank_counts_higher_rows_witness:
  "lb_rows (leaderboard_with_badges three_locations) =
     [\<lparr>lb_location = ''A'', forms_tracked = 1, total_target = 5, total_actual = 5,
        overall_percent = 100, Badge = Gold_Star, Rank = 1\<rparr>,
      \<lparr>lb_location = ''B'', forms_tracked = 1, total_target = 5, total_actual = 5,
        overall_percent = 100, Badge = Gold_Star, Rank = 1\<rparr>,
      \<lparr>lb_location = ''C'', forms_tracked = 1, total_target = 5, total_actual = 4,
        overall_percent = 80, Badge = Bronze_Star, Rank = 3\<rparr>] \<and>
   (1::nat) = length (filter (\<lambda>x. (100::rat) < x) [100, 100, 80]) + 1 \<and>
   (3::nat) = length (filter (\<lambda>x. (80::rat) < x) [100, 100, 80]) + 1 \<and>
   (3::nat) = 1 + length (filter (\<lambda>y. y = (100::rat)) [100, 100, 80])"
  using rank_counts_higher_rows [of
      "\<lparr>lb_location = ''A'', forms_tracked = 1, total_target = 5, total_actual = 5,
        overall_percent = 100, Badge = Gold_Star, Rank = 1\<rparr>" three_locations]
    rank_counts_higher_rows [of
      "\<lparr>lb_location = ''C'', forms_tracked = 1, total_target = 5, total_actual = 4,
        overall_percent = 80, Badge = Bronze_Star, Rank = 3\<rparr>" three_locations]
    three_locations_run
  by simp

text \<open>The claim as stated fails on 100, 100 and 80: the dense rank of 80 is 2, and the
  code gives it rank 3.\<close>

theorem rank_is_not_dense_counterexample:
  "map (\<lambda>r. (lb_location r, overall_percent r, Rank r))
     (lb_rows (leaderboard_with_badges three_locations)) =
     [(''A'', 100, 1), (''B'', 100, 1), (''C'', 80, 3)] \<and>
   dense_rank_spec [100, 100, 80] 80 = 2"
  using three_locations_run by (simp add: dense_rank_spec_def)

lemma length_filter_mset: "length (filter P xs) = size (filter_mset P (mset xs))"
  by (metis mset_filter size_mset)

text \<open>
  C2. When the \<open>overall_percent\<close> values of the leaderboard are 100, 100 and 80, the two
  rows at 100 have rank 1 and the row at 80 has rank 3.
\<close>

theorem ranks_of_100_100_80:
  assumes "mset (map overall_percent (lb_rows (leaderboard_with_badges compliance_summary))) =
             {#100, 100, 80#}"
    and "r \<in> set (lb_rows (leaderboard_with_badges compliance_summary))"
  shows "(overall_percent r = 100 \<longrightarrow> Rank r = 1) \<and> (overall_percent r = 80 \<longrightarrow> Rank r = 3)"
proof -
  let ?out = "lb_rows (leaderboard_with_badges compliance_summary)"
  have "Rank r = Suc (length (filter (\<lambda>w. overall_percent r < w) (map overall_percent ?out)))"
    using rank_of_row [OF assms(2)] by (simp only: length_filter_map)
  also have "\<dots> = Suc (size (filter_mset (\<lambda>w. overall_percent r < w) {#100, 100, 80#}))"
    by (simp only: length_filter_mset assms(1))
  finally show ?thesis
    by auto
qed

theorem ranks_of_100_100_80_witness:
  "mset (map overall_percent (lb_rows (leaderboard_with_badges three_locations))) =
     {#100, 100, 80#} \<and>
   map (\<lambda>r. (lb_location r, overall_percent r, Rank r))
     (lb_rows (leaderboard_with_badges three_locations)) =
     [(''A'', 100, 1), (''B'', 100, 1), (''C'', 80, 3)]"
proof -
  let ?a = "\<lparr>lb_location = ''A'', forms_tracked = 1, total_target = 5, total_actual = 5,
        overall_percent = 100, Badge = Gold_Star, Rank = 1\<rparr>"
  let ?c = "\<lparr>lb_location = ''C'', forms_tracked = 1, total_target = 5, total_actual = 4,
        overall_percent = 80, Badge = Bronze_Star, Rank = 3\<rparr>"
  have h: "mset (map overall_percent (lb_rows (leaderboard_with_badges three_locations))) =
     {#100, 100, 80#}"
    by (simp add: three_locations_run)
  have "?a \<in> set (lb_rows (leaderboard_with_badges three_locations))"
    "?c \<in> set (lb_rows (leaderboard_with_badges three_locations))"
    by (simp_all add: three_locations_run)
  from ranks_of_100_100_80 [OF h this(1)] ranks_of_100_100_80 [OF h this(2)] h
  show ?thesis
    by (simp add: three_locations_run)
qed

text \<open>
  C4, as the code has it. Without rows the result has no rows and declares four columns:
  the location, the overall percentage, the badge and the rank. Each of them is a column
  of every result.
\<close>

theorem empty_leaderboard_columns:
  "lb_rows (leaderboard_with_badges []) = [] \<and>
   columns (leaderboard_with_badges []) = [''location'', ''overall_percent'', ''Badge'', ''Rank''] \<and>
   set (columns (leaderboard_with_badges [])) \<subseteq>
     set (columns (leaderboard_with_badges compliance_summary))"
  by (simp add: leaderboard_with_badges_def Let_def)

text \<open>The claim as stated fails: the empty result declares four columns, a result with
  rows has seven, and neither has five.\<close>

theorem empty_leaderboard_columns_counterexample:
  "columns (leaderboard_with_badges []) = [''location'', ''overall_percent'', ''Badge'', ''Rank''] \<and>
   columns (leaderboard_with_badges three_locations) =
     [''location'', ''forms_tracked'', ''total_target'', ''total_actual'', ''overall_percent'',
      ''Badge'', ''Rank''] \<and>
   length (columns (leaderboard_with_badges [])) = 4 \<and>
   length (columns (leaderboard_with_badges three_locations)) = 7 \<and>
   set (columns (leaderboard_with_badges [])) \<noteq>
     set (columns (leaderboard_with_badges three_locations))"
proof -
  have "''forms_tracked'' \<in> set (columns (leaderboard_with_badges three_locations))"
    "''forms_tracked'' \<notin> set (columns (leaderboard_with_badges []))"
    by (simp_all add: three_locations_run) (simp add: leaderboard_with_badges_def)
  then have "set (columns (leaderboard_with_badges [])) \<noteq>
     set (columns (leaderboard_with_badges three_locations))"
    by blast
  then show ?thesis
    by (simp add: three_locations_run) (simp add: leaderboard_with_badges_def)
qed

lemma set_sort_values_desc [simp]: "set (sort_values_desc leader) = set leader"
  by (simp add: sort_values_desc_def)



lemma percent_complete_is_float:
  assumes "compute_period_targets df_raw start_date end_date selected_forms selected_locations = Inr rows"
    and "r \<in> set rows"
  shows "nearest_double (percent_complete r) = percent_complete r"
proof -
  from compute_period_targets_mem [OF assms] obtain name rq loc n where
    "r = summary_row name rq (period_count (req_interval rq) start_date end_date) loc n"
    by blast
  then show ?thesis
    by (simp add: summary_row_def Let_def)
qed



end
